theory Spec2Isabelle
  imports Main "HOL-Library.AList"
begin

section \<open>The reflect package: types, values and the primitives inject.go uses\<close>

text \<open>
  inject.go works on \<^verbatim>\<open>reflect.Type\<close> and \<^verbatim>\<open>reflect.Value\<close>. A type is a tree; its
  constructor is its \<^verbatim>\<open>Kind()\<close>. A struct field carries its name, whether it is
  exported, its tag and its declared type. A function type carries its parameter types, its
  result types and whether it is variadic. \<open>Basic\<close> stands for every type of another kind
  (int, string, a channel). \<open>PtrTo t\<close> is the pointer type \<^verbatim>\<open>*t\<close> and \<open>DefPtr n t\<close> the
  defined pointer type \<^verbatim>\<open>type n *t\<close>. Go types may refer to themselves, so the tree
  may be infinite: \<^verbatim>\<open>type P *P\<close> is \<open>self_type ''P''\<close>.
\<close>

datatype 'a field_decl =
  FieldDecl (fname: string) (exported: bool) (tag: string) (ftype: 'a)

codatatype rtype =
    Basic string
  | PtrTo rtype
  | DefPtr string rtype
  | SliceOf rtype
  | IfaceT string
  | StructT string "rtype field_decl list"
  | FuncT "rtype list" "rtype list" bool

datatype kind = Ptr | Interface | Struct | Func | Slice | OtherKind

fun Kind :: "rtype \<Rightarrow> kind" where
  "Kind (Basic n) = OtherKind"
| "Kind (PtrTo t) = Ptr"
| "Kind (DefPtr n t) = Ptr"
| "Kind (SliceOf t) = Slice"
| "Kind (IfaceT n) = Interface"
| "Kind (StructT n fs) = Struct"
| "Kind (FuncT ins outs variadic) = Func"

primcorec self_type :: "string \<Rightarrow> rtype" where
  "self_type n = DefPtr n (self_type n)"

text \<open>
  A Go value of concrete dynamic type. A non-nil pointer is written with the variable it
  points to: \<open>Ref g\<close> points to a variable of concrete type holding \<open>g\<close>, \<open>DefRef n g\<close> is
  such a pointer of the defined pointer type \<open>n\<close>, \<open>RefI n c\<close> points to a variable of the
  interface type \<open>n\<close> holding \<open>c\<close>. \<open>PtrNil t\<close> is the nil pointer of type \<^verbatim>\<open>*t\<close> and
  \<open>DefNil n t\<close> that of \<^verbatim>\<open>type n *t\<close>. A struct value lists its fields, each with its
  declaration and its content. A function value is its type and its code (\<open>None\<close> for a
  nil function). A value of type \<^verbatim>\<open>interface{}\<close> is a \<open>gval option\<close>, \<open>None\<close> being
  nil. A pointer may reach itself, so a value may be an infinite tree:
  \<^verbatim>\<open>var p P; p = &p\<close> is \<open>self_ptr ''P''\<close>. inject.go writes to memory only in
  \<^verbatim>\<open>Apply\<close>, into the fields of its one argument.
\<close>

codatatype gval =
    Scalar string int
  | PtrNil rtype
  | DefNil string rtype
  | Ref gval
  | DefRef string gval
  | RefI string "gval option"
  | SliceV rtype "gval option list"
  | StructV string "(rtype field_decl \<times> gval option) list"
  | FuncV "rtype list" "rtype list" bool "nat option"

type_synonym iface = "gval option"

primcorec type_of :: "gval \<Rightarrow> rtype" where
  "type_of g =
     (case g of
        Scalar n x \<Rightarrow> Basic n
      | PtrNil t \<Rightarrow> PtrTo t
      | DefNil n t \<Rightarrow> DefPtr n t
      | Ref g' \<Rightarrow> PtrTo (type_of g')
      | DefRef n g' \<Rightarrow> DefPtr n (type_of g')
      | RefI n c \<Rightarrow> PtrTo (IfaceT n)
      | SliceV t gs \<Rightarrow> SliceOf t
      | StructV n fs \<Rightarrow> StructT n (map fst fs)
      | FuncV ins outs variadic code \<Rightarrow> FuncT ins outs variadic)"

primcorec self_ptr :: "string \<Rightarrow> gval" where
  "self_ptr n = DefRef n (self_ptr n)"

text \<open>\<^verbatim>\<open>reflect.TypeOf\<close>: the dynamic type, the nil \<^verbatim>\<open>reflect.Type\<close> for a nil interface.\<close>

definition TypeOf :: "iface \<Rightarrow> rtype option" where
  "TypeOf val = map_option type_of val"

text \<open>
  A \<^verbatim>\<open>reflect.Value\<close> is the zero Value (\<open>Invalid\<close>) or a type with its data.
  \<open>ReadOnly\<close> is a valid Value that was obtained through an unexported struct field: it
  can be read and stored, and \<^verbatim>\<open>Value.Set\<close> and \<^verbatim>\<open>Value.Call\<close> refuse to pass it on.
  \<^verbatim>\<open>reflect.ValueOf\<close> of a nil interface is the zero Value, of another value a Value
  that is not read-only.
\<close>

datatype rvalue = Invalid | Valid rtype iface | ReadOnly rtype iface

fun IsValid :: "rvalue \<Rightarrow> bool" where
  "IsValid Invalid = False"
| "IsValid (Valid t d) = True"
| "IsValid (ReadOnly t d) = True"

definition ValueOf :: "iface \<Rightarrow> rvalue" where
  "ValueOf val = (case val of None \<Rightarrow> Invalid | Some g \<Rightarrow> Valid (type_of g) (Some g))"

text \<open>
  The parts of package reflect that inject.go calls and that are not its own code are
  parameters of the model: \<^verbatim>\<open>Type.Implements\<close>, \<^verbatim>\<open>Type.AssignableTo\<close> (which
  \<^verbatim>\<open>Value.Set\<close> and \<^verbatim>\<open>Value.Call\<close> check) and \<^verbatim>\<open>StructTag.Get\<close>.
\<close>

record reflect_lib =
  Implements :: "rtype \<Rightarrow> rtype \<Rightarrow> bool"
  AssignableTo :: "rtype \<Rightarrow> rtype \<Rightarrow> bool"
  TagGet :: "string \<Rightarrow> string \<Rightarrow> string"

datatype panic =
    NilDereference
  | NotAnInterfacePointer
  | NotAFunction
  | NilFunctionCall
  | WrongArgumentCount
  | ZeroValueArgument
  | NotAssignable rtype rtype
  | ReadOnlyValue
  | NotASlice
  | BodyPanic string

datatype error = ValueNotFound rtype

datatype 'a outcome = Panic panic | Error error | Return 'a

section \<open>The injector\<close>

text \<open>
  \<^verbatim>\<open>values map[reflect.Type]reflect.Value\<close> is an association list with distinct keys; a
  key is a \<^verbatim>\<open>reflect.Type\<close>, which may be nil (\<open>None\<close>). Go leaves the order in which
  \<^verbatim>\<open>range\<close> visits a map open and chooses it anew for each \<^verbatim>\<open>range\<close>: in \<^verbatim>\<open>Get\<close> the
  order of the list stands for the order of the visit, and what is proved of every list
  holds of every order; \<^verbatim>\<open>Apply\<close> and \<^verbatim>\<open>Invoke\<close>, which call \<^verbatim>\<open>Get\<close> once for each
  field or parameter, are given the order of each visit. \<^verbatim>\<open>parent\<close> is a reference
  to another injector, so injectors live in a store indexed by address; an address not yet
  in use holds a new injector. The world is this store together with the global variables
  that function bodies may write.
\<close>

type_synonym addr = nat
type_synonym tkey = "rtype option"

record injector =
  values_map :: "(tkey \<times> rvalue) list"
  parent :: "addr option"

record world =
  injectors :: "addr \<Rightarrow> injector"
  globals :: "string \<Rightarrow> int"

definition New :: injector where
  "New = \<lparr>values_map = [], parent = None\<rparr>"

text \<open>\<^verbatim>\<open>i.values[t]\<close>: the zero Value when the key is absent.\<close>

definition index_values :: "injector \<Rightarrow> tkey \<Rightarrow> rvalue" where
  "index_values r t = (case map_of (values_map r) t of None \<Rightarrow> Invalid | Some v \<Rightarrow> v)"

text \<open>\<^verbatim>\<open>i.values[typ] = val\<close> on the injector at address \<open>i\<close>.\<close>

definition store :: "addr \<Rightarrow> tkey \<Rightarrow> rvalue \<Rightarrow> world \<Rightarrow> world" where
  "store i typ val w =
     w\<lparr>injectors := (injectors w)
          (i := (injectors w i)\<lparr>values_map := AList.update typ val (values_map (injectors w i))\<rparr>)\<rparr>"

subsection \<open>InterfaceOf\<close>

text \<open>
  The loop \<^verbatim>\<open>for t.Kind() == reflect.Ptr { t = t.Elem() }\<close>. \<open>None\<close> is a loop that
  does not end, as on \<^verbatim>\<open>type P *P\<close>.
\<close>

partial_function (option) deref_type :: "rtype \<Rightarrow> rtype option" where
  "deref_type t =
     (case t of
        PtrTo t' \<Rightarrow> deref_type t'
      | DefPtr n t' \<Rightarrow> deref_type t'
      | _ \<Rightarrow> Some t)"

definition InterfaceOf :: "iface \<Rightarrow> rtype outcome option" where
  "InterfaceOf value =
     (case TypeOf value of
        None \<Rightarrow> Some (Panic NilDereference)
      | Some t \<Rightarrow>
          (case deref_type t of
             None \<Rightarrow> None
           | Some t' \<Rightarrow>
               if Kind t' \<noteq> Interface then Some (Panic NotAnInterfacePointer)
               else Some (Return t')))"

subsection \<open>Map, MapTo, Set, SetParent\<close>

text \<open>
  Each returns the injector it was called on, and the new world. \<^verbatim>\<open>MapTo\<close> does not
  return when \<^verbatim>\<open>InterfaceOf\<close> does not.
\<close>

definition Map :: "addr \<Rightarrow> iface \<Rightarrow> world \<Rightarrow> addr outcome \<times> world" where
  "Map i val w = (Return i, store i (TypeOf val) (ValueOf val) w)"

definition MapTo :: "addr \<Rightarrow> iface \<Rightarrow> iface \<Rightarrow> world \<Rightarrow> (addr outcome \<times> world) option" where
  "MapTo i val ifacePtr w =
     (case InterfaceOf ifacePtr of
        None \<Rightarrow> None
      | Some (Panic p) \<Rightarrow> Some (Panic p, w)
      | Some (Error e) \<Rightarrow> Some (Error e, w)
      | Some (Return t) \<Rightarrow> Some (Return i, store i (Some t) (ValueOf val) w))"

definition Set :: "addr \<Rightarrow> tkey \<Rightarrow> rvalue \<Rightarrow> world \<Rightarrow> addr outcome \<times> world" where
  "Set i typ val w = (Return i, store i typ val w)"

definition SetParent :: "addr \<Rightarrow> addr option \<Rightarrow> world \<Rightarrow> world" where
  "SetParent i p w = w\<lparr>injectors := (injectors w)(i := (injectors w i)\<lparr>parent := p\<rparr>)\<rparr>"

subsection \<open>Get\<close>

text \<open>
  The loop over the entries: the first key that implements \<open>t\<close> gives the value; calling
  \<^verbatim>\<open>Implements\<close> on a nil key is a nil dereference.
\<close>

fun scan :: "reflect_lib \<Rightarrow> rtype \<Rightarrow> (tkey \<times> rvalue) list \<Rightarrow> rvalue outcome" where
  "scan L t [] = Return Invalid"
| "scan L t ((k, v) # kvs) =
     (case k of
        None \<Rightarrow> Panic NilDereference
      | Some kt \<Rightarrow> if Implements L kt t then Return v else scan L t kvs)"

text \<open>
  \<open>None\<close> is a call that does not return (a cycle of parents); a nil \<open>t\<close> panics at
  \<^verbatim>\<open>t.Kind()\<close>.
\<close>

partial_function (option) Get ::
  "reflect_lib \<Rightarrow> addr \<Rightarrow> tkey \<Rightarrow> world \<Rightarrow> (rvalue outcome \<times> world) option" where
  "Get L i t w =
     (if IsValid (index_values (injectors w i) t)
      then Some (Return (index_values (injectors w i) t), w)
      else
        (case t of
           None \<Rightarrow> Some (Panic NilDereference, w)
         | Some ty \<Rightarrow>
             (case (if Kind ty = Interface then scan L ty (values_map (injectors w i))
                    else Return Invalid) of
                Panic p \<Rightarrow> Some (Panic p, w)
              | Error e \<Rightarrow> Some (Error e, w)
              | Return val \<Rightarrow>
                  if IsValid val then Some (Return val, w)
                  else
                    (case parent (injectors w i) of
                       None \<Rightarrow> Some (Return val, w)
                     | Some p \<Rightarrow> Get L p t w))))"

subsection \<open>The order of a visit\<close>

text \<open>
  Go chooses the order of each \<^verbatim>\<open>range\<close> over a map anew, so two calls of \<^verbatim>\<open>Get\<close> may
  visit the same map in different orders. A visit is the choice for one call of \<^verbatim>\<open>Get\<close>:
  it gives the order in which the \<^verbatim>\<open>range\<close> of the call itself (number 0), that of the
  call on its parent (number 1), and so on, meets the entries of its map. \<open>Get_visited\<close>
  is \<^verbatim>\<open>Get\<close> with the visit of the call: its code is that of \<open>Get\<close>, and \<^verbatim>\<open>range\<close>
  meets the entries in the order of the visit. With the visit \<open>in_order\<close>, which leaves
  every list of entries as it is, it is \<open>Get\<close>. \<^verbatim>\<open>Apply\<close> and \<^verbatim>\<open>Invoke\<close> take a list
  of visits, one for each field or parameter in turn; when the list is at its end the
  visit is \<open>in_order\<close>.
\<close>

type_synonym visit = "nat \<Rightarrow> (tkey \<times> rvalue) list \<Rightarrow> (tkey \<times> rvalue) list"

definition in_order :: visit where
  "in_order n kvs = kvs"

partial_function (option) Get_visited ::
  "reflect_lib \<Rightarrow> visit \<Rightarrow> addr \<Rightarrow> tkey \<Rightarrow> world \<Rightarrow> (rvalue outcome \<times> world) option" where
  "Get_visited L v i t w =
     (if IsValid (index_values (injectors w i) t)
      then Some (Return (index_values (injectors w i) t), w)
      else
        (case t of
           None \<Rightarrow> Some (Panic NilDereference, w)
         | Some ty \<Rightarrow>
             (case (if Kind ty = Interface then scan L ty (v 0 (values_map (injectors w i)))
                    else Return Invalid) of
                Panic p \<Rightarrow> Some (Panic p, w)
              | Error e \<Rightarrow> Some (Error e, w)
              | Return val \<Rightarrow>
                  if IsValid val then Some (Return val, w)
                  else
                    (case parent (injectors w i) of
                       None \<Rightarrow> Some (Return val, w)
                     | Some p \<Rightarrow> Get_visited L (\<lambda>n. v (Suc n)) p t w))))"

fun first_visit :: "visit list \<Rightarrow> visit" where
  "first_visit [] = in_order"
| "first_visit (v # vs) = v"

subsection \<open>Apply\<close>

text \<open>
  The loop over the fields of the struct. \<open>addressable\<close> says whether the struct was reached
  through a pointer: \<^verbatim>\<open>f.CanSet()\<close> holds for an exported field of an addressable
  struct. \<^verbatim>\<open>f.Set(v)\<close> panics when \<open>v\<close> is read-only, and when the type of \<open>v\<close> is not
  assignable to the type of the field. The fields are returned as the call leaves them.
\<close>

fun inject_fields ::
  "reflect_lib \<Rightarrow> visit list \<Rightarrow> addr \<Rightarrow> bool \<Rightarrow> (rtype field_decl \<times> iface) list \<Rightarrow> world \<Rightarrow>
     (unit outcome \<times> (rtype field_decl \<times> iface) list \<times> world) option" where
  "inject_fields L vs i addressable [] w = Some (Return (), [], w)"
| "inject_fields L vs i addressable ((d, c) # fs) w =
     (if (addressable \<and> exported d) \<and> (tag d = ''inject'' \<or> TagGet L (tag d) ''inject'' \<noteq> [])
      then
        (case Get_visited L (first_visit vs) i (Some (ftype d)) w of
           None \<Rightarrow> None
         | Some (Panic p, w') \<Rightarrow> Some (Panic p, (d, c) # fs, w')
         | Some (Error e, w') \<Rightarrow> Some (Error e, (d, c) # fs, w')
         | Some (Return Invalid, w') \<Rightarrow> Some (Error (ValueNotFound (ftype d)), (d, c) # fs, w')
         | Some (Return (ReadOnly vt vd), w') \<Rightarrow> Some (Panic ReadOnlyValue, (d, c) # fs, w')
         | Some (Return (Valid vt vd), w') \<Rightarrow>
             if AssignableTo L vt (ftype d)
             then
               (case inject_fields L (tl vs) i addressable fs w' of
                  None \<Rightarrow> None
                | Some (r, fs', w'') \<Rightarrow> Some (r, (d, vd) # fs', w''))
             else Some (Panic (NotAssignable vt (ftype d)), (d, c) # fs, w'))
      else
        (case inject_fields L (tl vs) i addressable fs w of
           None \<Rightarrow> None
         | Some (r, fs', w') \<Rightarrow> Some (r, (d, c) # fs', w')))"

text \<open>
  The loop \<^verbatim>\<open>for v.Kind() == reflect.Ptr { v = v.Elem() }\<close> and the test for a struct,
  on the value itself: \<^verbatim>\<open>Elem\<close> of a nil pointer is the zero Value, whose kind is neither
  Ptr nor Struct; \<^verbatim>\<open>Elem\<close> of a pointer to an interface variable has kind Interface.
  \<open>None\<close> is a loop that does not end, as on a pointer that reaches itself. The value is
  returned as the call leaves it.
\<close>

partial_function (option) apply_value ::
  "reflect_lib \<Rightarrow> visit list \<Rightarrow> addr \<Rightarrow> bool \<Rightarrow> gval \<Rightarrow> world \<Rightarrow>
     (unit outcome \<times> gval \<times> world) option" where
  "apply_value L vs i addressable g w =
     (case g of
        Ref g' \<Rightarrow>
          Option.bind (apply_value L vs i True g' w) (\<lambda>(r, g'', w'). Some (r, Ref g'', w'))
      | DefRef n g' \<Rightarrow>
          Option.bind (apply_value L vs i True g' w) (\<lambda>(r, g'', w'). Some (r, DefRef n g'', w'))
      | StructV n fs \<Rightarrow>
          (case inject_fields L vs i addressable fs w of
             None \<Rightarrow> None
           | Some (r, fs', w') \<Rightarrow> Some (r, StructV n fs', w'))
      | _ \<Rightarrow> Some (Return (), g, w))"

definition Apply ::
  "reflect_lib \<Rightarrow> visit list \<Rightarrow> addr \<Rightarrow> iface \<Rightarrow> world \<Rightarrow>
     (unit outcome \<times> iface \<times> world) option" where
  "Apply L vs i val w =
     (case val of
        None \<Rightarrow> Some (Return (), None, w)
      | Some g \<Rightarrow>
          (case apply_value L vs i False g w of
             None \<Rightarrow> None
           | Some (r, g', w') \<Rightarrow> Some (r, Some g', w')))"

subsection \<open>Invoke\<close>

text \<open>
  The body of a Go function is code outside inject.go: it takes its arguments and the
  world, and returns its results or panics, with the world as it leaves it. A program
  gives the body of each function value.
\<close>

type_synonym body = "iface list \<Rightarrow> world \<Rightarrow> (panic + iface list) \<times> world"
type_synonym program = "nat \<Rightarrow> body"

text \<open>
  \<^verbatim>\<open>reflect.Value.Call\<close>, from its source, in the order of its checks: the function
  must not be nil; the number of arguments must fit; no argument may be the zero Value; each
  argument must be assignable to its parameter; for a variadic function the arguments from
  the last parameter on are packed into a new slice, each being assignable to the element
  type and then set into the slice, which \<^verbatim>\<open>Value.Set\<close> refuses for a read-only Value;
  at last the arguments are copied for the call, and none of them may be read-only.
\<close>

fun assign_args :: "reflect_lib \<Rightarrow> (rvalue \<times> rtype) list \<Rightarrow> iface list outcome" where
  "assign_args L [] = Return []"
| "assign_args L ((Invalid, t) # xs) = Panic ZeroValueArgument"
| "assign_args L ((Valid vt d, t) # xs) =
     (if AssignableTo L vt t
      then (case assign_args L xs of
              Panic p \<Rightarrow> Panic p
            | Error e \<Rightarrow> Error e
            | Return ds \<Rightarrow> Return (d # ds))
      else Panic (NotAssignable vt t))"
| "assign_args L ((ReadOnly vt d, t) # xs) =
     (if AssignableTo L vt t
      then (case assign_args L xs of
              Panic p \<Rightarrow> Panic p
            | Error e \<Rightarrow> Error e
            | Return ds \<Rightarrow> Return (d # ds))
      else Panic (NotAssignable vt t))"

fun pack_slice :: "reflect_lib \<Rightarrow> rtype \<Rightarrow> rvalue list \<Rightarrow> iface list outcome" where
  "pack_slice L elem [] = Return []"
| "pack_slice L elem (Invalid # xs) = Panic ZeroValueArgument"
| "pack_slice L elem (Valid vt d # xs) =
     (if AssignableTo L vt elem
      then (case pack_slice L elem xs of
              Panic p \<Rightarrow> Panic p
            | Error e \<Rightarrow> Error e
            | Return es \<Rightarrow> Return (d # es))
      else Panic (NotAssignable vt elem))"
| "pack_slice L elem (ReadOnly vt d # xs) =
     (if AssignableTo L vt elem then Panic ReadOnlyValue else Panic (NotAssignable vt elem))"

fun is_read_only :: "rvalue \<Rightarrow> bool" where
  "is_read_only (ReadOnly t d) = True"
| "is_read_only v = False"

definition call_args ::
  "reflect_lib \<Rightarrow> rtype list \<Rightarrow> bool \<Rightarrow> rvalue list \<Rightarrow> iface list outcome" where
  "call_args L ins variadic xs =
     (if \<not> variadic
      then
        (if length xs \<noteq> length ins then Panic WrongArgumentCount
         else if \<not> list_all IsValid xs then Panic ZeroValueArgument
         else
           (case assign_args L (zip xs ins) of
              Panic p \<Rightarrow> Panic p
            | Error e \<Rightarrow> Error e
            | Return ds \<Rightarrow> if list_ex is_read_only xs then Panic ReadOnlyValue else Return ds))
      else
        (case rev ins of
           [] \<Rightarrow> Panic WrongArgumentCount
         | slice_type # front \<Rightarrow>
             if length xs < length front then Panic WrongArgumentCount
             else if \<not> list_all IsValid xs then Panic ZeroValueArgument
             else
               (case assign_args L (zip (take (length front) xs) (rev front)) of
                  Panic p \<Rightarrow> Panic p
                | Error e \<Rightarrow> Error e
                | Return ds \<Rightarrow>
                    (case slice_type of
                       SliceOf elem \<Rightarrow>
                         (case pack_slice L elem (drop (length front) xs) of
                            Panic p \<Rightarrow> Panic p
                          | Error e \<Rightarrow> Error e
                          | Return es \<Rightarrow>
                              if list_ex is_read_only (take (length front) xs)
                              then Panic ReadOnlyValue
                              else Return (ds @ [Some (SliceV elem es)]))
                     | _ \<Rightarrow> Panic NotASlice))))"

definition Call ::
  "reflect_lib \<Rightarrow> program \<Rightarrow> gval \<Rightarrow> rvalue list \<Rightarrow> world \<Rightarrow> rvalue list outcome \<times> world" where
  "Call L P f xs w =
     (case f of
        FuncV ins outs variadic code \<Rightarrow>
          (case code of
             None \<Rightarrow> (Panic NilFunctionCall, w)
           | Some c \<Rightarrow>
               (case call_args L ins variadic xs of
                  Panic p \<Rightarrow> (Panic p, w)
                | Error e \<Rightarrow> (Error e, w)
                | Return args \<Rightarrow>
                    (case P c args w of
                       (Inl p, w') \<Rightarrow> (Panic p, w')
                     | (Inr rs, w') \<Rightarrow> (Return (map2 Valid outs rs), w'))))
      | _ \<Rightarrow> (Panic NotAFunction, w))"

text \<open>The loop over the parameters: the first one that does not resolve ends it.\<close>

fun resolve_args ::
  "reflect_lib \<Rightarrow> visit list \<Rightarrow> addr \<Rightarrow> rtype list \<Rightarrow> world \<Rightarrow>
     (rvalue list outcome \<times> world) option" where
  "resolve_args L vs i [] w = Some (Return [], w)"
| "resolve_args L vs i (argType # ts) w =
     (case Get_visited L (first_visit vs) i (Some argType) w of
        None \<Rightarrow> None
      | Some (Panic p, w') \<Rightarrow> Some (Panic p, w')
      | Some (Error e, w') \<Rightarrow> Some (Error e, w')
      | Some (Return val, w') \<Rightarrow>
          if \<not> IsValid val then Some (Error (ValueNotFound argType), w')
          else
            (case resolve_args L (tl vs) i ts w' of
               None \<Rightarrow> None
             | Some (Panic p, w'') \<Rightarrow> Some (Panic p, w'')
             | Some (Error e, w'') \<Rightarrow> Some (Error e, w'')
             | Some (Return vals, w'') \<Rightarrow> Some (Return (val # vals), w'')))"

definition Invoke ::
  "reflect_lib \<Rightarrow> program \<Rightarrow> visit list \<Rightarrow> addr \<Rightarrow> iface \<Rightarrow> world \<Rightarrow>
     (rvalue list outcome \<times> world) option" where
  "Invoke L P vs i f w =
     (case f of
        None \<Rightarrow> Some (Panic NilDereference, w)
      | Some g \<Rightarrow>
          (case type_of g of
             FuncT ins outs variadic \<Rightarrow>
               (case resolve_args L vs i ins w of
                  None \<Rightarrow> None
                | Some (Panic p, w') \<Rightarrow> Some (Panic p, w')
                | Some (Error e, w') \<Rightarrow> Some (Error e, w')
                | Some (Return xs, w') \<Rightarrow> Some (Call L P g xs w'))
           | _ \<Rightarrow> Some (Panic NotAFunction, w)))"

section \<open>Concrete types, registries and functions for the examples\<close>

definition int_t :: rtype where "int_t = Basic ''int''"
definition string_t :: rtype where "string_t = Basic ''string''"
definition duck_t :: rtype where "duck_t = Basic ''Duck''"
definition quacker_t :: rtype where "quacker_t = IfaceT ''Quacker''"

text \<open>
  A reflect library in which \<^verbatim>\<open>Duck\<close> is the one type with the method of
  \<^verbatim>\<open>Quacker\<close>, every type implements the empty interface, and a type is assignable to
  itself and to the interfaces it implements.
\<close>

definition example_lib :: reflect_lib where
  "example_lib =
     \<lparr>Implements = (\<lambda>k t. t = IfaceT [] \<or> (t = quacker_t \<and> (k = duck_t \<or> k = quacker_t))),
      AssignableTo = (\<lambda>a b. a = b \<or> b = IfaceT [] \<or> (b = quacker_t \<and> a = duck_t)),
      TagGet = (\<lambda>tg key. [])\<rparr>"

text \<open>The visit in which every \<^verbatim>\<open>range\<close> meets the entries in the reverse order of the list.\<close>

definition reversed :: visit where
  "reversed n kvs = rev kvs"

definition empty_world :: world where
  "empty_world = \<lparr>injectors = (\<lambda>a. New), globals = (\<lambda>n. 0)\<rparr>"

section \<open>Sequences of mapping calls\<close>

text \<open>
  A registry state reachable by \<^verbatim>\<open>Map\<close>, \<^verbatim>\<open>MapTo\<close> and \<^verbatim>\<open>Set\<close> is the world after a
  list of such calls on the injector at \<open>i\<close>; a call of \<^verbatim>\<open>MapTo\<close> that panics or does
  not return leaves the registry as it was and adds no state. A call stores a valid Value
  when \<^verbatim>\<open>Map\<close> or \<^verbatim>\<open>MapTo\<close> is given a value other than nil and \<^verbatim>\<open>Set\<close> a Value other
  than the zero Value.
\<close>

datatype mapper_call = CallMap iface | CallMapTo iface iface | CallSet tkey rvalue

fun run_call :: "addr \<Rightarrow> mapper_call \<Rightarrow> world \<Rightarrow> world" where
  "run_call i (CallMap val) w = snd (Map i val w)"
| "run_call i (CallMapTo val ifacePtr) w =
     (case MapTo i val ifacePtr w of None \<Rightarrow> w | Some (r, w') \<Rightarrow> w')"
| "run_call i (CallSet typ val) w = snd (Set i typ val w)"

fun run_calls :: "addr \<Rightarrow> mapper_call list \<Rightarrow> world \<Rightarrow> world" where
  "run_calls i [] w = w"
| "run_calls i (c # cs) w = run_calls i cs (run_call i c w)"

fun stores_valid :: "mapper_call \<Rightarrow> bool" where
  "stores_valid (CallMap val) = (val \<noteq> None)"
| "stores_valid (CallMapTo val ifacePtr) = (val \<noteq> None)"
| "stores_valid (CallSet typ val) = IsValid val"

text \<open>Two registries: a duck under \<^verbatim>\<open>Quacker\<close> in the parent at 1, \<^verbatim>\<open>Map(nil)\<close> in the child at 0.\<close>

definition duck :: gval where "duck = Scalar ''Duck'' 1"


text \<open>
  A child at 0 holding an int and a duck, with a parent at 1 holding a string.
\<close>

definition family_unlinked :: world where
  "family_unlinked =
     snd (Map 1 (Some (Scalar ''string'' 0))
       (snd (Map 0 (Some duck) (snd (Map 0 (Some (Scalar ''int'' 7)) empty_world)))))"

definition family_world :: world where
  "family_world = SetParent 0 (Some 1) family_unlinked"

text \<open>A child at 0 after \<^verbatim>\<open>Set(int, reflect.Value{})\<close>, with a parent at 1 after \<^verbatim>\<open>Map(7)\<close>.\<close>

definition shadow_world :: world where
  "shadow_world =
     SetParent 0 (Some 1)
       (snd (Map 1 (Some (Scalar ''int'' 7)) (snd (Set 0 (Some int_t) Invalid empty_world))))"

section \<open>The interface scan in the words of the specification\<close>

text \<open>
  The specification speaks of the first stored value whose concrete type implements the
  interface; the code tests the key. \<open>first_implementing_value\<close> follows the
  specification. An entry is stored under its own type when its key is the type of its
  value, as after \<^verbatim>\<open>Map\<close>.
\<close>

definition value_implements :: "reflect_lib \<Rightarrow> rtype \<Rightarrow> rvalue \<Rightarrow> bool" where
  "value_implements L I v =
     (case v of
        Invalid \<Rightarrow> False
      | Valid t d \<Rightarrow> Implements L t I
      | ReadOnly t d \<Rightarrow> Implements L t I)"

definition first_implementing_value ::
  "reflect_lib \<Rightarrow> rtype \<Rightarrow> (tkey \<times> rvalue) list \<Rightarrow> rvalue option" where
  "first_implementing_value L I kvs = find (value_implements L I) (map snd kvs)"

definition stored_under_own_type :: "tkey \<times> rvalue \<Rightarrow> bool" where
  "stored_under_own_type e =
     (case snd e of
        Invalid \<Rightarrow> False
      | Valid t d \<Rightarrow> fst e = Some t
      | ReadOnly t d \<Rightarrow> fst e = Some t)"

text \<open>A registry after \<^verbatim>\<open>Set(Duck, reflect.ValueOf(3))\<close>: the key is not the type of the value.\<close>

definition mislabelled_world :: world where
  "mislabelled_world = snd (Set 0 (Some duck_t) (Valid int_t (Some (Scalar ''int'' 3))) empty_world)"

section \<open>Injectable fields, resolved parameters and the example program\<close>

text \<open>
  A field is injectable when it is exported and tagged for injection; on a struct reached
  through a pointer these are the fields \<^verbatim>\<open>Apply\<close> sets. A type resolves in a visit when
  \<^verbatim>\<open>Get\<close> returns a valid Value for it there; a field resolves and can be set when that
  Value is not read-only and is assignable to the field. \<open>filled\<close> is a field after it has
  been set to the value it resolves to in a visit. \<open>settable_to\<close> says that a Value can be
  passed for a parameter of a type: it is not read-only and its type is assignable to the
  type. \<open>data_of\<close> is the data a Value carries.
\<close>

definition injectable :: "reflect_lib \<Rightarrow> rtype field_decl \<Rightarrow> bool" where
  "injectable L d = (exported d \<and> (tag d = ''inject'' \<or> TagGet L (tag d) ''inject'' \<noteq> []))"

definition resolves :: "reflect_lib \<Rightarrow> addr \<Rightarrow> world \<Rightarrow> visit \<Rightarrow> rtype \<Rightarrow> bool" where
  "resolves L i w v t =
     (case Get_visited L v i (Some t) w of
        Some (Return x, w') \<Rightarrow> IsValid x
      | _ \<Rightarrow> False)"

definition resolves_assignable ::
  "reflect_lib \<Rightarrow> addr \<Rightarrow> world \<Rightarrow> visit \<Rightarrow> rtype \<Rightarrow> bool" where
  "resolves_assignable L i w v t =
     (case Get_visited L v i (Some t) w of
        Some (Return (Valid vt vd), w') \<Rightarrow> AssignableTo L vt t
      | _ \<Rightarrow> False)"

definition filled ::
  "reflect_lib \<Rightarrow> addr \<Rightarrow> world \<Rightarrow> visit \<Rightarrow> rtype field_decl \<times> iface \<Rightarrow>
     rtype field_decl \<times> iface" where
  "filled L i w v e =
     (if injectable L (fst e)
      then (case Get_visited L v i (Some (ftype (fst e))) w of
              Some (Return (Valid vt vd), w') \<Rightarrow> (fst e, vd)
            | _ \<Rightarrow> e)
      else e)"

fun settable_to :: "reflect_lib \<Rightarrow> rvalue \<Rightarrow> rtype \<Rightarrow> bool" where
  "settable_to L (Valid vt d) t = AssignableTo L vt t"
| "settable_to L v t = False"

fun data_of :: "rvalue \<Rightarrow> iface" where
  "data_of Invalid = None"
| "data_of (Valid t d) = d"
| "data_of (ReadOnly t d) = d"

text \<open>
  A pointer to a value through a path of pointer types: \<open>None\<close> is a step through a
  pointer type \<^verbatim>\<open>*T\<close>, \<open>Some n\<close> one through the defined pointer type \<open>n\<close>.
\<close>

fun pointer_to :: "string option list \<Rightarrow> gval \<Rightarrow> gval" where
  "pointer_to [] g = g"
| "pointer_to (None # ps) g = Ref (pointer_to ps g)"
| "pointer_to (Some n # ps) g = DefRef n (pointer_to ps g)"

definition float_t :: rtype where "float_t = Basic ''float64''"

text \<open>
  A struct with an exported tagged int, an unexported tagged string, an exported tagged
  float64, and an exported tagged \<^verbatim>\<open>Quacker\<close>, as \<^verbatim>\<open>Apply\<close> receives it through a pointer.
\<close>

definition pond_fields :: "(rtype field_decl \<times> iface) list" where
  "pond_fields =
     [(FieldDecl ''Count'' True ''inject'' int_t, Some (Scalar ''int'' 0)),
      (FieldDecl ''name'' False ''inject'' string_t, Some (Scalar ''string'' 0)),
      (FieldDecl ''Depth'' True ''inject'' float_t, Some (Scalar ''float64'' 0)),
      (FieldDecl ''Bird'' True ''inject'' quacker_t, None)]"

definition pond_ptr :: iface where
  "pond_ptr = Some (Ref (StructV ''Pond'' pond_fields))"

text \<open>
  A struct with a tagged \<^verbatim>\<open>Quacker\<close> and a tagged string, and a registry after
  \<^verbatim>\<open>MapTo(3, (*Quacker)(nil))\<close>.
\<close>

definition nest_ptr :: iface where
  "nest_ptr =
     Some (Ref (StructV ''Nest''
       [(FieldDecl ''Bird'' True ''inject'' quacker_t, None),
        (FieldDecl ''Name'' True ''inject'' string_t, Some (Scalar ''string'' 0))]))"

definition quack_int_world :: world where
  "quack_int_world =
     run_call 0 (CallMapTo (Some (Scalar ''int'' 3)) (Some (PtrNil quacker_t))) empty_world"

text \<open>
  A program: the body 0 returns its first argument and sets the global \<^verbatim>\<open>ran\<close>; the
  body 1 is a closure over the injector at 0 and calls \<^verbatim>\<open>Map(1)\<close> on it; the body 2
  returns its arguments; every other body panics.
\<close>

definition example_prog :: program where
  "example_prog c args w =
     (if c = 0 then (Inr (take 1 args), w\<lparr>globals := (globals w)(''ran'' := 1)\<rparr>)
      else if c = 1 then (Inr [], snd (Map 0 (Some (Scalar ''int'' 1)) w))
      else if c = 2 then (Inr args, w)
      else (Inl (BodyPanic ''no such body''), w))"

text \<open>
  A registry after \<^verbatim>\<open>Set\<close> of the Value of a string under the type int, one after
  \<^verbatim>\<open>Map([]int{1})\<close>, and one after \<^verbatim>\<open>Set\<close> under the type int of the read-only Value
  \<^verbatim>\<open>reflect.ValueOf(struct{ n int }{5}).Field(0)\<close>.
\<close>

definition mismatch_world :: world where
  "mismatch_world = snd (Set 0 (Some int_t) (Valid string_t (Some (Scalar ''string'' 0))) empty_world)"

definition slice_world :: world where
  "slice_world = snd (Map 0 (Some (SliceV int_t [Some (Scalar ''int'' 1)])) empty_world)"

definition readonly_world :: world where
  "readonly_world = snd (Set 0 (Some int_t) (ReadOnly int_t (Some (Scalar ''int'' 5))) empty_world)"

section \<open>Properties\<close>

subsection \<open>Basic facts about the store and Get\<close>

lemma type_of_simps:
  "type_of (Scalar n x) = Basic n"
  "type_of (PtrNil t) = PtrTo t"
  "type_of (DefNil n t) = DefPtr n t"
  "type_of (Ref g) = PtrTo (type_of g)"
  "type_of (DefRef n g) = DefPtr n (type_of g)"
  "type_of (RefI n c) = PtrTo (IfaceT n)"
  "type_of (SliceV t gs) = SliceOf t"
  "type_of (StructV n fs) = StructT n (map fst fs)"
  "type_of (FuncV ins outs variadic code) = FuncT ins outs variadic"
  by (subst type_of.code, simp)+

lemma deref_type_PtrTo: "deref_type (PtrTo t) = deref_type t"
  by (subst deref_type.simps) simp

lemma deref_type_DefPtr: "deref_type (DefPtr n t) = deref_type t"
  by (subst deref_type.simps) simp

lemma deref_type_other: "Kind t \<noteq> Ptr \<Longrightarrow> deref_type t = Some t"
  by (subst deref_type.simps) (cases t; simp)

lemma index_values_store_same: "index_values (injectors (store i k v w) i) k = v"
  by (simp add: store_def index_values_def update_conv')

lemma Get_hit:
  "IsValid (index_values (injectors w i) t) \<Longrightarrow>
     Get L i t w = Some (Return (index_values (injectors w i) t), w)"
  by (subst Get.simps) simp

lemma Get_miss:
  "\<not> IsValid (index_values (injectors w i) (Some ty)) \<Longrightarrow>
     Get L i (Some ty) w =
       (case (if Kind ty = Interface then scan L ty (values_map (injectors w i))
              else Return Invalid) of
          Panic p \<Rightarrow> Some (Panic p, w)
        | Error e \<Rightarrow> Some (Error e, w)
        | Return val \<Rightarrow>
            if IsValid val then Some (Return val, w)
            else (case parent (injectors w i) of
                    None \<Rightarrow> Some (Return val, w)
                  | Some p \<Rightarrow> Get L p (Some ty) w))"
  by (subst Get.simps) simp

lemma scan_none:
  "\<forall>(k, v) \<in> set kvs. \<exists>kt. k = Some kt \<and> \<not> Implements L kt ty \<Longrightarrow> scan L ty kvs = Return Invalid"
  by (induction kvs) auto

lemma scan_first:
  "\<forall>(k, v) \<in> set pre. \<exists>kt. k = Some kt \<and> \<not> Implements L kt ty \<Longrightarrow> Implements L k ty \<Longrightarrow>
     scan L ty (pre @ (Some k, v) # post) = Return v"
  by (induction pre) auto





lemma in_order_0: "in_order 0 kvs = kvs"
  by (simp add: in_order_def)

lemma in_order_Suc: "(\<lambda>n. in_order (Suc n)) = in_order"
  by (simp add: in_order_def fun_eq_iff)

lemma Get_visited_result_world:
  assumes "Get_visited L v i t w = Some y"
  shows "snd y = w"
proof (rule Get_visited.raw_induct[where P = "\<lambda>L v i t w y. snd y = w", OF _ assms])
  fix G :: "reflect_lib \<Rightarrow> visit \<Rightarrow> addr \<Rightarrow> tkey \<Rightarrow> world \<Rightarrow> (rvalue outcome \<times> world) option"
  fix L v i t w y
  assume 1: "\<And>L v i t w y. G L v i t w = Some y \<Longrightarrow> snd y = w"
    "(if IsValid (index_values (injectors w i) t)
      then Some (Return (index_values (injectors w i) t), w)
      else
        (case t of
           None \<Rightarrow> Some (Panic NilDereference, w)
         | Some ty \<Rightarrow>
             (case (if Kind ty = Interface then scan L ty (v 0 (values_map (injectors w i)))
                    else Return Invalid) of
                Panic p \<Rightarrow> Some (Panic p, w)
              | Error e \<Rightarrow> Some (Error e, w)
              | Return val \<Rightarrow>
                  if IsValid val then Some (Return val, w)
                  else
                    (case parent (injectors w i) of
                       None \<Rightarrow> Some (Return val, w)
                     | Some p \<Rightarrow> G L (\<lambda>n. v (Suc n)) p t w)))) = Some y"
  show "snd y = w"
  proof (cases "IsValid (index_values (injectors w i) t)")
    case True
    with 1(2) show ?thesis by auto
  next
    case False
    note nv = this
    show ?thesis
    proof (cases t)
      case None
      with nv 1(2) show ?thesis by auto
    next
      case (Some ty)
      show ?thesis
      proof (cases "if Kind ty = Interface then scan L ty (v 0 (values_map (injectors w i)))
                    else Return Invalid")
        case (Panic p)
        with nv Some 1(2) show ?thesis by auto
      next
        case (Error e)
        with nv Some 1(2) show ?thesis by auto
      next
        case (Return val)
        show ?thesis
        proof (cases "IsValid val")
          case True
          with nv Some Return 1(2) show ?thesis by auto
        next
          case False
          show ?thesis
          proof (cases "parent (injectors w i)")
            case None
            with nv Some Return False 1(2) show ?thesis by auto
          next
            case (Some p)
            with nv \<open>t = Some ty\<close> Return False 1(2) have "G L (\<lambda>n. v (Suc n)) p t w = Some y" by simp
            then show ?thesis by (rule 1(1))
          qed
        qed
      qed
    qed
  qed
qed

lemma Get_visited_world:
  assumes "Get_visited L v i t w = Some (r, w')"
  shows "w' = w"
  using Get_visited_result_world[OF assms] by simp

lemma Get_visited_in_order:
  "Get_visited L in_order i t w =
     (if IsValid (index_values (injectors w i) t)
      then Some (Return (index_values (injectors w i) t), w)
      else
        (case t of
           None \<Rightarrow> Some (Panic NilDereference, w)
         | Some ty \<Rightarrow>
             (case (if Kind ty = Interface then scan L ty (values_map (injectors w i))
                    else Return Invalid) of
                Panic p \<Rightarrow> Some (Panic p, w)
              | Error e \<Rightarrow> Some (Error e, w)
              | Return val \<Rightarrow>
                  if IsValid val then Some (Return val, w)
                  else
                    (case parent (injectors w i) of
                       None \<Rightarrow> Some (Return val, w)
                     | Some p \<Rightarrow> Get_visited L in_order p t w))))"
  by (subst Get_visited.simps, unfold in_order_0 in_order_Suc) (rule refl)

lemma Get_visited_of_Get:
  assumes "Get L i t w = Some y"
  shows "Get_visited L in_order i t w = Some y"
proof (rule Get.raw_induct[where P = "\<lambda>L i t w y. Get_visited L in_order i t w = Some y", OF _ assms])
  fix G :: "reflect_lib \<Rightarrow> addr \<Rightarrow> tkey \<Rightarrow> world \<Rightarrow> (rvalue outcome \<times> world) option"
  fix L i t w y
  assume 1: "\<And>L i t w y. G L i t w = Some y \<Longrightarrow> Get_visited L in_order i t w = Some y"
    "(if IsValid (index_values (injectors w i) t)
      then Some (Return (index_values (injectors w i) t), w)
      else
        (case t of
           None \<Rightarrow> Some (Panic NilDereference, w)
         | Some ty \<Rightarrow>
             (case (if Kind ty = Interface then scan L ty (values_map (injectors w i))
                    else Return Invalid) of
                Panic p \<Rightarrow> Some (Panic p, w)
              | Error e \<Rightarrow> Some (Error e, w)
              | Return val \<Rightarrow>
                  if IsValid val then Some (Return val, w)
                  else
                    (case parent (injectors w i) of
                       None \<Rightarrow> Some (Return val, w)
                     | Some p \<Rightarrow> G L p t w)))) = Some y"
  show "Get_visited L in_order i t w = Some y"
  proof (cases "IsValid (index_values (injectors w i) t)")
    case True
    with 1(2) show ?thesis by (subst Get_visited_in_order) auto
  next
    case False
    note nv = this
    show ?thesis
    proof (cases t)
      case None
      with nv 1(2) show ?thesis by (subst Get_visited_in_order) auto
    next
      case (Some ty)
      show ?thesis
      proof (cases "if Kind ty = Interface then scan L ty (values_map (injectors w i))
                    else Return Invalid")
        case (Panic p)
        with nv Some 1(2) show ?thesis by (subst Get_visited_in_order) auto
      next
        case (Error e)
        with nv Some 1(2) show ?thesis by (subst Get_visited_in_order) auto
      next
        case (Return val)
        show ?thesis
        proof (cases "IsValid val")
          case True
          with nv Some Return 1(2) show ?thesis by (subst Get_visited_in_order) auto
        next
          case False
          show ?thesis
          proof (cases "parent (injectors w i)")
            case None
            with nv Some Return False 1(2) show ?thesis by (subst Get_visited_in_order) auto
          next
            case (Some p)
            with nv \<open>t = Some ty\<close> Return False 1(2) have "G L p t w = Some y" by simp
            then have "Get_visited L in_order p t w = Some y" by (rule 1(1))
            with nv \<open>t = Some ty\<close> Return False Some show ?thesis
              by (subst Get_visited_in_order) simp
          qed
        qed
      qed
    qed
  qed
qed

lemma Get_of_Get_visited:
  assumes "Get_visited L in_order i t w = Some y"
  shows "Get L i t w = Some y"
proof -
  have "v = in_order \<longrightarrow> Get L i t w = Some y" if "Get_visited L v i t w = Some y" for v
  proof (rule Get_visited.raw_induct[where P = "\<lambda>L v i t w y. v = in_order \<longrightarrow> Get L i t w = Some y",
        OF _ that])
    fix G :: "reflect_lib \<Rightarrow> visit \<Rightarrow> addr \<Rightarrow> tkey \<Rightarrow> world \<Rightarrow> (rvalue outcome \<times> world) option"
    fix L v i t w y
    assume 1: "\<And>L v i t w y. G L v i t w = Some y \<Longrightarrow> v = in_order \<longrightarrow> Get L i t w = Some y"
      "(if IsValid (index_values (injectors w i) t)
      then Some (Return (index_values (injectors w i) t), w)
      else
        (case t of
           None \<Rightarrow> Some (Panic NilDereference, w)
         | Some ty \<Rightarrow>
             (case (if Kind ty = Interface then scan L ty (v 0 (values_map (injectors w i)))
                    else Return Invalid) of
                Panic p \<Rightarrow> Some (Panic p, w)
              | Error e \<Rightarrow> Some (Error e, w)
              | Return val \<Rightarrow>
                  if IsValid val then Some (Return val, w)
                  else
                    (case parent (injectors w i) of
                       None \<Rightarrow> Some (Return val, w)
                     | Some p \<Rightarrow> G L (\<lambda>n. v (Suc n)) p t w)))) = Some y"
    show "v = in_order \<longrightarrow> Get L i t w = Some y"
    proof
      assume v: "v = in_order"
      note 2 = 1(2)[unfolded v in_order_0]
      show "Get L i t w = Some y"
      proof (cases "IsValid (index_values (injectors w i) t)")
        case True
        with 2 show ?thesis by (subst Get.simps) auto
      next
        case False
        note nv = this
        show ?thesis
        proof (cases t)
          case None
          with nv 2 show ?thesis by (subst Get.simps) auto
        next
          case (Some ty)
          show ?thesis
          proof (cases "if Kind ty = Interface then scan L ty (values_map (injectors w i))
                        else Return Invalid")
            case (Panic p)
            with nv Some 2 show ?thesis by (subst Get.simps) auto
          next
            case (Error e)
            with nv Some 2 show ?thesis by (subst Get.simps) auto
          next
            case (Return val)
            show ?thesis
            proof (cases "IsValid val")
              case True
              with nv Some Return 2 show ?thesis by (subst Get.simps) auto
            next
              case False
              show ?thesis
              proof (cases "parent (injectors w i)")
                case None
                with nv Some Return False 2 show ?thesis by (subst Get.simps) auto
              next
                case (Some p)
                with nv \<open>t = Some ty\<close> Return False 2
                have "G L (\<lambda>n. in_order (Suc n)) p t w = Some y" by simp
                then have "G L in_order p t w = Some y" by (simp add: in_order_Suc)
                with 1(1) have "Get L p t w = Some y" by blast
                with nv \<open>t = Some ty\<close> Return False Some show ?thesis
                  by (subst Get.simps) simp
              qed
            qed
          qed
        qed
      qed
    qed
  qed
  with assms show ?thesis by blast
qed

lemma Get_visited_id: "Get_visited L in_order i t w = Get L i t w"
proof (cases "Get L i t w")
  case None
  show ?thesis
  proof (cases "Get_visited L in_order i t w")
    case (Some y)
    then have "Get L i t w = Some y" by (rule Get_of_Get_visited)
    with None show ?thesis by simp
  qed (simp add: None)
next
  case (Some y)
  then show ?thesis by (simp add: Get_visited_of_Get)
qed

lemma resolvesD:
  assumes "resolves L i w v t"
  shows "\<exists>x. Get_visited L v i (Some t) w = Some (Return x, w) \<and> IsValid x"
proof (cases "Get_visited L v i (Some t) w")
  case None
  with assms show ?thesis by (simp add: resolves_def)
next
  case (Some y)
  obtain r w' where y: "y = (r, w')" by (cases y)
  from Get_visited_world Some y have w': "w' = w" by blast
  show ?thesis
  proof (cases r)
    case (Return x)
    with assms Some y w' show ?thesis by (simp add: resolves_def)
  qed (use assms Some y in \<open>simp_all add: resolves_def\<close>)
qed

lemma resolves_assignableD:
  assumes "resolves_assignable L i w v t"
  shows "\<exists>vt vd. Get_visited L v i (Some t) w = Some (Return (Valid vt vd), w) \<and>
     AssignableTo L vt t"
proof (cases "Get_visited L v i (Some t) w")
  case None
  with assms show ?thesis by (simp add: resolves_assignable_def)
next
  case (Some y)
  obtain r w' where y: "y = (r, w')" by (cases y)
  from Get_visited_world Some y have w': "w' = w" by blast
  show ?thesis
  proof (cases r)
    case (Return x)
    with assms Some y w' show ?thesis
      by (cases x) (simp_all add: resolves_assignable_def)
  qed (use assms Some y in \<open>simp_all add: resolves_assignable_def\<close>)
qed

lemma apply_value_Ref:
  "apply_value L vs i a (Ref g) w =
     Option.bind (apply_value L vs i True g w) (\<lambda>(r, g', w'). Some (r, Ref g', w'))"
  by (subst apply_value.simps) simp

lemma apply_value_DefRef:
  "apply_value L vs i a (DefRef n g) w =
     Option.bind (apply_value L vs i True g w) (\<lambda>(r, g', w'). Some (r, DefRef n g', w'))"
  by (subst apply_value.simps) simp

lemma apply_value_StructV:
  "apply_value L vs i a (StructV n fs) w =
     (case inject_fields L vs i a fs w of
        None \<Rightarrow> None
      | Some (r, fs', w') \<Rightarrow> Some (r, StructV n fs', w'))"
  by (subst apply_value.simps) simp

lemma apply_value_through_pointers:
  "apply_value L vs i True g w = Some (r, g', w') \<Longrightarrow> ps \<noteq> [] \<Longrightarrow>
     apply_value L vs i a (pointer_to ps g) w = Some (r, pointer_to ps g', w')"
proof (induction ps arbitrary: a)
  case Nil
  then show ?case by simp
next
  case (Cons p ps)
  have inner: "apply_value L vs i True (pointer_to ps g) w = Some (r, pointer_to ps g', w')"
  proof (cases "ps = []")
    case True
    with Cons.prems show ?thesis by simp
  next
    case False
    with Cons show ?thesis by blast
  qed
  then show ?case
    by (cases p) (simp_all add: apply_value_Ref apply_value_DefRef)
qed

lemma MapTo_nil_interface_pointer:
  "MapTo i val (Some (PtrNil (IfaceT n))) w =
     Some (Return i, store i (Some (IfaceT n)) (ValueOf val) w)"
  by (simp add: MapTo_def InterfaceOf_def TypeOf_def type_of_simps deref_type_PtrTo deref_type_other)

subsection \<open>The example worlds\<close>


lemma family_unlinked_parent: "injectors family_unlinked (Suc 0) =
   \<lparr>values_map = [(Some string_t, Valid string_t (Some (Scalar ''string'' 0)))], parent = None\<rparr>"
  by (simp add: family_unlinked_def Map_def store_def empty_world_def New_def
      TypeOf_def type_of_simps ValueOf_def string_t_def)

lemma family_world_child: "injectors family_world 0 =
   \<lparr>values_map = [(Some int_t, Valid int_t (Some (Scalar ''int'' 7))), (Some duck_t, Valid duck_t (Some duck))],
    parent = Some 1\<rparr>"
  by (simp add: family_world_def family_unlinked_def SetParent_def Map_def store_def
      empty_world_def New_def TypeOf_def type_of_simps ValueOf_def int_t_def duck_t_def duck_def)

lemma family_world_parent: "injectors family_world (Suc 0) =
   \<lparr>values_map = [(Some string_t, Valid string_t (Some (Scalar ''string'' 0)))], parent = None\<rparr>"
  by (simp add: family_world_def family_unlinked_def SetParent_def Map_def store_def
      empty_world_def New_def TypeOf_def type_of_simps ValueOf_def string_t_def)

lemma family_parent_string:
  "Get example_lib (Suc 0) (Some string_t) family_world =
     Some (Return (Valid string_t (Some (Scalar ''string'' 0))), family_world)"
  by (subst Get.simps) (simp add: family_world_parent index_values_def)

lemma family_child_int:
  "Get example_lib 0 (Some int_t) family_world =
     Some (Return (Valid int_t (Some (Scalar ''int'' 7))), family_world)"
  by (subst Get.simps) (simp add: family_world_child index_values_def)


lemma family_parent_float:
  "Get example_lib (Suc 0) (Some float_t) family_world = Some (Return Invalid, family_world)"
  by (subst Get.simps) (simp add: family_world_parent index_values_def float_t_def string_t_def)

lemma family_child_float:
  "Get example_lib 0 (Some float_t) family_world = Some (Return Invalid, family_world)"
  by (subst Get.simps)
     (simp add: family_world_child index_values_def family_parent_float,
      simp add: float_t_def int_t_def duck_t_def)



lemma shadow_world_child:
  "injectors shadow_world 0 = \<lparr>values_map = [(Some int_t, Invalid)], parent = Some 1\<rparr>"
  by (simp add: shadow_world_def SetParent_def Map_def Set_def store_def empty_world_def New_def
      TypeOf_def type_of_simps ValueOf_def int_t_def)

lemma shadow_world_parent:
  "injectors shadow_world (Suc 0) =
     \<lparr>values_map = [(Some int_t, Valid int_t (Some (Scalar ''int'' 7)))], parent = None\<rparr>"
  by (simp add: shadow_world_def SetParent_def Map_def Set_def store_def empty_world_def New_def
      TypeOf_def type_of_simps ValueOf_def int_t_def)

lemma shadow_parent_int:
  "Get example_lib (Suc 0) (Some int_t) shadow_world =
        Some (Return (Valid int_t (Some (Scalar ''int'' 7))), shadow_world)"
  by (subst Get.simps) (simp add: shadow_world_parent index_values_def)

lemma shadow_child_int:
  "Get example_lib 0 (Some int_t) shadow_world =
        Some (Return (Valid int_t (Some (Scalar ''int'' 7))), shadow_world)"
  by (subst Get.simps)
     (simp add: shadow_world_child index_values_def int_t_def shadow_parent_int[unfolded int_t_def])

lemma mislabelled_world_values:
  "injectors mislabelled_world 0 =
     \<lparr>values_map = [(Some duck_t, Valid int_t (Some (Scalar ''int'' 3)))], parent = None\<rparr>"
  by (simp add: mislabelled_world_def Set_def store_def empty_world_def New_def)

lemma quack_int_world_values:
  "injectors quack_int_world 0 =
     \<lparr>values_map = [(Some quacker_t, Valid int_t (Some (Scalar ''int'' 3)))], parent = None\<rparr>"
  by (simp add: quack_int_world_def MapTo_nil_interface_pointer store_def empty_world_def New_def
      TypeOf_def type_of_simps ValueOf_def quacker_t_def int_t_def)

lemma quack_int_quacker:
  "Get example_lib 0 (Some quacker_t) quack_int_world =
     Some (Return (Valid int_t (Some (Scalar ''int'' 3))), quack_int_world)"
  by (subst Get.simps) (simp add: quack_int_world_values index_values_def)

lemma mismatch_world_values:
  "injectors mismatch_world 0 =
     \<lparr>values_map = [(Some int_t, Valid string_t (Some (Scalar ''string'' 0)))], parent = None\<rparr>"
  by (simp add: mismatch_world_def Set_def store_def empty_world_def New_def)

lemma mismatch_world_int:
  "Get example_lib 0 (Some int_t) mismatch_world =
     Some (Return (Valid string_t (Some (Scalar ''string'' 0))), mismatch_world)"
  by (subst Get.simps) (simp add: mismatch_world_values index_values_def)

lemma slice_world_values:
  "injectors slice_world 0 =
     \<lparr>values_map = [(Some (SliceOf int_t), Valid (SliceOf int_t) (Some (SliceV int_t [Some (Scalar ''int'' 1)])))],
      parent = None\<rparr>"
  by (simp add: slice_world_def Map_def store_def empty_world_def New_def TypeOf_def type_of_simps ValueOf_def)

lemma slice_world_slice:
  "Get example_lib 0 (Some (SliceOf int_t)) slice_world =
     Some (Return (Valid (SliceOf int_t) (Some (SliceV int_t [Some (Scalar ''int'' 1)]))), slice_world)"
  by (subst Get.simps) (simp add: slice_world_values index_values_def)

lemma readonly_world_values:
  "injectors readonly_world 0 =
     \<lparr>values_map = [(Some int_t, ReadOnly int_t (Some (Scalar ''int'' 5)))], parent = None\<rparr>"
  by (simp add: readonly_world_def Set_def store_def empty_world_def New_def)

lemma readonly_world_int:
  "Get example_lib 0 (Some int_t) readonly_world =
     Some (Return (ReadOnly int_t (Some (Scalar ''int'' 5))), readonly_world)"
  by (subst Get.simps) (simp add: readonly_world_values index_values_def)

lemma family_child_any:
  "Get example_lib 0 (Some (IfaceT [])) family_world =
     Some (Return (Valid int_t (Some (Scalar ''int'' 7))), family_world)"
  by (subst Get.simps)
     (simp add: family_world_child index_values_def int_t_def duck_t_def example_lib_def)

lemma family_child_any_rev:
  "Get_visited example_lib reversed 0 (Some (IfaceT [])) family_world =
     Some (Return (Valid duck_t (Some duck)), family_world)"
  by (subst Get_visited.simps)
     (simp add: family_world_child index_values_def int_t_def duck_t_def example_lib_def
        reversed_def)

lemma family_child_int_rev:
  "Get_visited example_lib reversed 0 (Some int_t) family_world =
     Some (Return (Valid int_t (Some (Scalar ''int'' 7))), family_world)"
  by (subst Get_visited.simps) (simp add: family_world_child index_values_def)

subsection \<open>The order of resolution\<close>

text \<open>
  Claim C1, as the code has it. (1) If the own map holds a valid Value under exactly \<open>T\<close>,
  \<^verbatim>\<open>Get\<close> returns it. (2) Otherwise, when \<open>ty\<close> is an interface type, the entries are
  visited in order, and the Value under the first key that implements \<open>ty\<close> is returned
  if it is valid. (3) Otherwise, when \<open>ty\<close> is no interface type, or no key implements it, or
  the first key that implements it holds the zero Value, the result is that of \<^verbatim>\<open>Get\<close> on
  the parent with the same key, and not found (the zero Value) when there is no parent.
\<close>

theorem Get_resolution_order:
  "(IsValid (index_values (injectors w i) T) \<longrightarrow>
      Get L i T w = Some (Return (index_values (injectors w i) T), w))
   \<and> (\<not> IsValid (index_values (injectors w i) (Some ty)) \<and> Kind ty = Interface \<and>
       values_map (injectors w i) = pre @ (Some k, v) # post \<and>
       (\<forall>(k', v') \<in> set pre. \<exists>kt. k' = Some kt \<and> \<not> Implements L kt ty) \<and>
       Implements L k ty \<and> IsValid v \<longrightarrow>
      Get L i (Some ty) w = Some (Return v, w))
   \<and> (\<not> IsValid (index_values (injectors w i) (Some ty)) \<and>
       (Kind ty \<noteq> Interface \<or>
        (\<forall>(k', v') \<in> set (values_map (injectors w i)). \<exists>kt. k' = Some kt \<and> \<not> Implements L kt ty) \<or>
        (values_map (injectors w i) = pre @ (Some k, Invalid) # post \<and>
         (\<forall>(k', v') \<in> set pre. \<exists>kt. k' = Some kt \<and> \<not> Implements L kt ty) \<and>
         Implements L k ty)) \<longrightarrow>
      Get L i (Some ty) w =
        (case parent (injectors w i) of
           None \<Rightarrow> Some (Return Invalid, w)
         | Some p \<Rightarrow> Get L p (Some ty) w))"
proof (intro conjI impI)
  assume "IsValid (index_values (injectors w i) T)"
  then show "Get L i T w = Some (Return (index_values (injectors w i) T), w)"
    by (rule Get_hit)
next
  assume a: "\<not> IsValid (index_values (injectors w i) (Some ty)) \<and> Kind ty = Interface \<and>
       values_map (injectors w i) = pre @ (Some k, v) # post \<and>
       (\<forall>(k', v') \<in> set pre. \<exists>kt. k' = Some kt \<and> \<not> Implements L kt ty) \<and>
       Implements L k ty \<and> IsValid v"
  then have "scan L ty (values_map (injectors w i)) = Return v"
    by (simp add: scan_first)
  with a show "Get L i (Some ty) w = Some (Return v, w)"
    by (simp add: Get_miss)
next
  assume a: "\<not> IsValid (index_values (injectors w i) (Some ty)) \<and>
       (Kind ty \<noteq> Interface \<or>
        (\<forall>(k', v') \<in> set (values_map (injectors w i)). \<exists>kt. k' = Some kt \<and> \<not> Implements L kt ty) \<or>
        (values_map (injectors w i) = pre @ (Some k, Invalid) # post \<and>
         (\<forall>(k', v') \<in> set pre. \<exists>kt. k' = Some kt \<and> \<not> Implements L kt ty) \<and>
         Implements L k ty))"
  have "(if Kind ty = Interface then scan L ty (values_map (injectors w i))
             else Return Invalid) = Return Invalid"
  proof (cases "Kind ty = Interface")
    case True
    with a consider
        "\<forall>(k', v') \<in> set (values_map (injectors w i)). \<exists>kt. k' = Some kt \<and> \<not> Implements L kt ty"
      | "values_map (injectors w i) = pre @ (Some k, Invalid) # post"
        "\<forall>(k', v') \<in> set pre. \<exists>kt. k' = Some kt \<and> \<not> Implements L kt ty" "Implements L k ty"
      by blast
    then have "scan L ty (values_map (injectors w i)) = Return Invalid"
    proof cases
      case 1
      then show ?thesis by (rule scan_none)
    next
      case 2
      then show ?thesis by (simp add: scan_first)
    qed
    with True show ?thesis by simp
  next
    case False
    then show ?thesis by simp
  qed
  with a show "Get L i (Some ty) w =
        (case parent (injectors w i) of
           None \<Rightarrow> Some (Return Invalid, w)
         | Some p \<Rightarrow> Get L p (Some ty) w)"
    by (simp add: Get_miss)
qed

text \<open>
  In \<open>family_world\<close> the child resolves int by its own entry, \<^verbatim>\<open>Quacker\<close> by the scan and
  string through its parent.
\<close>

theorem Get_resolution_order_witness:
  "Get example_lib 0 (Some int_t) family_world =
       Some (Return (Valid int_t (Some (Scalar ''int'' 7))), family_world)
   \<and> Get example_lib 0 (Some quacker_t) family_world =
       Some (Return (Valid duck_t (Some duck)), family_world)
   \<and> Get example_lib 0 (Some string_t) family_world =
       Some (Return (Valid string_t (Some (Scalar ''string'' 0))), family_world)"
proof -
  have 1: "IsValid (index_values (injectors family_world 0) (Some int_t))"
    by (simp add: family_world_child index_values_def)
  have 2: "\<not> IsValid (index_values (injectors family_world 0) (Some quacker_t)) \<and>
       Kind quacker_t = Interface \<and>
       values_map (injectors family_world 0) =
         [(Some int_t, Valid int_t (Some (Scalar ''int'' 7)))] @ (Some duck_t, Valid duck_t (Some duck)) # [] \<and>
       (\<forall>(k', v') \<in> set [(Some int_t, Valid int_t (Some (Scalar ''int'' 7)))].
           \<exists>kt. k' = Some kt \<and> \<not> Implements example_lib kt quacker_t) \<and>
       Implements example_lib duck_t quacker_t \<and> IsValid (Valid duck_t (Some duck))"
    by (simp add: family_world_child index_values_def example_lib_def
        int_t_def quacker_t_def duck_t_def)
  have 3: "\<not> IsValid (index_values (injectors family_world 0) (Some string_t)) \<and>
       Kind string_t \<noteq> Interface"
    by (simp add: family_world_child index_values_def string_t_def int_t_def duck_t_def)
  from Get_resolution_order[of family_world 0 "Some int_t" example_lib]
    1 have a: "Get example_lib 0 (Some int_t) family_world =
       Some (Return (Valid int_t (Some (Scalar ''int'' 7))), family_world)"
    by (simp add: family_world_child index_values_def)
  from Get_resolution_order[of family_world 0 _ example_lib quacker_t
      "[(Some int_t, Valid int_t (Some (Scalar ''int'' 7)))]" duck_t "Valid duck_t (Some duck)" "[]"]
    2 have b: "Get example_lib 0 (Some quacker_t) family_world =
       Some (Return (Valid duck_t (Some duck)), family_world)"
    by blast
  from Get_resolution_order[of family_world 0 _ example_lib string_t] 3
  have "Get example_lib 0 (Some string_t) family_world =
      (case parent (injectors family_world 0) of
           None \<Rightarrow> Some (Return Invalid, family_world)
         | Some p \<Rightarrow> Get example_lib p (Some string_t) family_world)"
    by blast
  then have c: "Get example_lib 0 (Some string_t) family_world =
       Some (Return (Valid string_t (Some (Scalar ''string'' 0))), family_world)"
    by (simp add: family_world_child family_parent_string)
  from a b c show ?thesis by simp
qed

text \<open>
  Claim C1 fails at step (1) when the own entry is the zero Value: the child of
  \<open>shadow_world\<close> has an entry under exactly int, and \<^verbatim>\<open>Get\<close> returns the 7 of its parent.
\<close>

theorem own_zero_Value_entry_not_returned:
  "map_of (values_map (injectors shadow_world 0)) (Some int_t) = Some Invalid
   \<and> Get example_lib 0 (Some int_t) shadow_world =
        Some (Return (Valid int_t (Some (Scalar ''int'' 7))), shadow_world)"
  by (simp add: shadow_world_child shadow_child_int)

subsection \<open>The scan and the types of the stored values\<close>

lemma scan_first_implementing_value:
  "list_all stored_under_own_type kvs \<Longrightarrow> first_implementing_value L I kvs = Some v \<Longrightarrow>
     scan L I kvs = Return v"
proof (induction kvs)
  case Nil
  then show ?case by (simp add: first_implementing_value_def)
next
  case (Cons e kvs)
  obtain k v' where e: "e = (k, v')" by (cases e)
  with Cons.prems(1) obtain t where v': "k = Some t" "value_implements L I v' = Implements L t I"
    by (cases v') (auto simp: stored_under_own_type_def value_implements_def)
  show ?case
  proof (cases "Implements L t I")
    case True
    with Cons.prems(2) e v' show ?thesis
      by (simp add: first_implementing_value_def)
  next
    case False
    with Cons.prems e v' have "first_implementing_value L I kvs = Some v" "list_all stored_under_own_type kvs"
      by (simp_all add: first_implementing_value_def)
    with Cons.IH have "scan L I kvs = Return v" by simp
    with False e v' show ?thesis by simp
  qed
qed

lemma first_implementing_value_valid:
  "first_implementing_value L I kvs = Some v \<Longrightarrow> IsValid v"
  unfolding first_implementing_value_def
  by (cases v) (auto simp: find_Some_iff value_implements_def)

lemma scan_update_only_implementor:
  "\<forall>(k, v') \<in> set kvs. k \<noteq> Some T \<longrightarrow> (\<exists>kt. k = Some kt \<and> \<not> Implements L kt I) \<Longrightarrow>
   Implements L T I \<Longrightarrow> scan L I (AList.update (Some T) v kvs) = Return v"
  by (induction kvs) auto

text \<open>
  Claim C2, as the code has it. In a registry whose entries are each stored under the type
  of their value and which has no entry under the interface type \<open>I\<close>: \<^verbatim>\<open>Get(I)\<close> returns
  the first stored value, in the order of the visit, whose type implements \<open>I\<close>; and after
  \<^verbatim>\<open>Set\<close> of a value under its own type \<open>T\<close>, which implements \<open>I\<close>, \<^verbatim>\<open>Get(I)\<close> returns
  that value when no other stored value has a type that implements \<open>I\<close>.
\<close>

theorem Get_interface_by_value_type:
  "(list_all stored_under_own_type (values_map (injectors w i)) \<and> Kind I = Interface \<and>
    map_of (values_map (injectors w i)) (Some I) = None \<and>
    first_implementing_value L I (values_map (injectors w i)) = Some v
    \<longrightarrow> Get L i (Some I) w = Some (Return v, w))
   \<and> (list_all stored_under_own_type (values_map (injectors w i)) \<and> Kind I = Interface \<and>
    map_of (values_map (injectors w i)) (Some I) = None \<and> T \<noteq> I \<and> Implements L T I \<and>
    (\<forall>(k, v') \<in> set (values_map (injectors w i)). k \<noteq> Some T \<longrightarrow> \<not> value_implements L I v')
    \<longrightarrow> Get L i (Some I) (snd (Set i (Some T) (Valid T d) w)) =
          Some (Return (Valid T d), snd (Set i (Some T) (Valid T d) w)))"
proof (intro conjI impI)
  assume a: "list_all stored_under_own_type (values_map (injectors w i)) \<and> Kind I = Interface \<and>
    map_of (values_map (injectors w i)) (Some I) = None \<and>
    first_implementing_value L I (values_map (injectors w i)) = Some v"
  then have s: "scan L I (values_map (injectors w i)) = Return v"
    by (simp add: scan_first_implementing_value)
  from a have v: "IsValid v" by (auto dest: first_implementing_value_valid)
  from a have nv: "\<not> IsValid (index_values (injectors w i) (Some I))"
    by (simp add: index_values_def)
  from a s v show "Get L i (Some I) w = Some (Return v, w)"
    by (simp add: Get_miss[OF nv])
next
  assume a: "list_all stored_under_own_type (values_map (injectors w i)) \<and> Kind I = Interface \<and>
    map_of (values_map (injectors w i)) (Some I) = None \<and> T \<noteq> I \<and> Implements L T I \<and>
    (\<forall>(k, v') \<in> set (values_map (injectors w i)). k \<noteq> Some T \<longrightarrow> \<not> value_implements L I v')"
  let ?w = "snd (Set i (Some T) (Valid T d) w)"
  have vals: "values_map (injectors ?w i) = AList.update (Some T) (Valid T d) (values_map (injectors w i))"
    by (simp add: Set_def store_def)
  have others: "\<forall>(k, v') \<in> set (values_map (injectors w i)).
      k \<noteq> Some T \<longrightarrow> (\<exists>kt. k = Some kt \<and> \<not> Implements L kt I)"
  proof (clarify)
    fix k v' assume m: "(k, v') \<in> set (values_map (injectors w i))" and k: "k \<noteq> Some T"
    from a m have "stored_under_own_type (k, v')" by (auto simp: list_all_iff)
    then obtain t where t: "k = Some t" "value_implements L I v' = Implements L t I"
      by (cases v') (auto simp: stored_under_own_type_def value_implements_def)
    from a m k have "\<not> value_implements L I v'" by blast
    with t show "\<exists>kt. k = Some kt \<and> \<not> Implements L kt I" by simp
  qed
  with a have s: "scan L I (values_map (injectors ?w i)) = Return (Valid T d)"
    by (simp add: vals scan_update_only_implementor)
  from a have "I \<noteq> T" by blast
  with a have nv: "\<not> IsValid (index_values (injectors ?w i) (Some I))"
    by (simp add: index_values_def vals update_conv')
  from a s show "Get L i (Some I) ?w = Some (Return (Valid T d), ?w)"
    by (simp add: Get_miss[OF nv])
qed

text \<open>
  In \<open>family_world\<close> the duck is the first value that implements \<^verbatim>\<open>Quacker\<close>; and after
  \<^verbatim>\<open>Map(7)\<close> and \<^verbatim>\<open>Set\<close> of the duck under its type, \<^verbatim>\<open>Get(Quacker)\<close> returns the duck.
\<close>

theorem Get_interface_by_value_type_witness:
  "Get example_lib 0 (Some quacker_t) family_world = Some (Return (Valid duck_t (Some duck)), family_world)
   \<and> Get example_lib 0 (Some quacker_t)
        (snd (Set 0 (Some duck_t) (Valid duck_t (Some duck)) (snd (Map 0 (Some (Scalar ''int'' 7)) empty_world)))) =
       Some (Return (Valid duck_t (Some duck)),
          snd (Set 0 (Some duck_t) (Valid duck_t (Some duck)) (snd (Map 0 (Some (Scalar ''int'' 7)) empty_world))))"
proof -
  have 1: "list_all stored_under_own_type (values_map (injectors family_world 0)) \<and>
    Kind quacker_t = Interface \<and>
    map_of (values_map (injectors family_world 0)) (Some quacker_t) = None \<and>
    first_implementing_value example_lib quacker_t (values_map (injectors family_world 0)) =
      Some (Valid duck_t (Some duck))"
    by (simp add: family_world_child stored_under_own_type_def first_implementing_value_def
        value_implements_def example_lib_def quacker_t_def duck_t_def int_t_def)
  let ?w = "snd (Map 0 (Some (Scalar ''int'' 7)) empty_world)"
  have v: "values_map (injectors ?w 0) = [(Some int_t, Valid int_t (Some (Scalar ''int'' 7)))]"
    by (simp add: Map_def store_def empty_world_def New_def TypeOf_def type_of_simps ValueOf_def int_t_def)
  have 2: "list_all stored_under_own_type (values_map (injectors ?w 0)) \<and>
    Kind quacker_t = Interface \<and>
    map_of (values_map (injectors ?w 0)) (Some quacker_t) = None \<and> duck_t \<noteq> quacker_t \<and>
    Implements example_lib duck_t quacker_t \<and>
    (\<forall>(k, v') \<in> set (values_map (injectors ?w 0)).
        k \<noteq> Some duck_t \<longrightarrow> \<not> value_implements example_lib quacker_t v')"
    by (simp add: v stored_under_own_type_def value_implements_def example_lib_def
        quacker_t_def duck_t_def int_t_def)
  from Get_interface_by_value_type[of family_world 0 quacker_t example_lib "Valid duck_t (Some duck)"] 1
  have a: "Get example_lib 0 (Some quacker_t) family_world =
      Some (Return (Valid duck_t (Some duck)), family_world)" by blast
  from Get_interface_by_value_type[of ?w 0 quacker_t example_lib _ duck_t "Some duck"] 2
  have b: "Get example_lib 0 (Some quacker_t) (snd (Set 0 (Some duck_t) (Valid duck_t (Some duck)) ?w)) =
       Some (Return (Valid duck_t (Some duck)), snd (Set 0 (Some duck_t) (Valid duck_t (Some duck)) ?w))"
    by blast
  from a b show ?thesis by simp
qed

text \<open>
  Claim C2 fails when a key is not the type of its value: after
  \<^verbatim>\<open>Set(Duck, reflect.ValueOf(3))\<close> no stored value has a type that implements
  \<^verbatim>\<open>Quacker\<close>, and \<^verbatim>\<open>Get(Quacker)\<close> returns the int 3, since the key implements it.
\<close>

theorem Get_returns_value_of_other_type:
  "map_of (values_map (injectors mislabelled_world 0)) (Some quacker_t) = None
   \<and> first_implementing_value example_lib quacker_t (values_map (injectors mislabelled_world 0)) = None
   \<and> Get example_lib 0 (Some quacker_t) mislabelled_world =
        Some (Return (Valid int_t (Some (Scalar ''int'' 3))), mislabelled_world)
   \<and> \<not> Implements example_lib int_t quacker_t"
proof (intro conjI)
  show "Get example_lib 0 (Some quacker_t) mislabelled_world =
        Some (Return (Valid int_t (Some (Scalar ''int'' 3))), mislabelled_world)"
    by (subst Get.simps)
       (simp add: mislabelled_world_values index_values_def quacker_t_def duck_t_def example_lib_def)
qed (simp_all add: mislabelled_world_values first_implementing_value_def value_implements_def
      example_lib_def quacker_t_def duck_t_def int_t_def)

subsection \<open>Stored Values and the not-found result\<close>

lemma update_all_valid:
  "list_all (\<lambda>(k, v). IsValid v) kvs \<Longrightarrow> IsValid val \<Longrightarrow>
     list_all (\<lambda>(k, v). IsValid v) (AList.update typ val kvs)"
  by (induction kvs) auto

lemma store_all_valid:
  "list_all (\<lambda>(k, v). IsValid v) (values_map (injectors w i)) \<Longrightarrow> IsValid val \<Longrightarrow>
     list_all (\<lambda>(k, v). IsValid v) (values_map (injectors (store i typ val w) i))"
  by (simp add: store_def update_all_valid)

lemma run_call_all_valid:
  assumes "list_all (\<lambda>(k, v). IsValid v) (values_map (injectors w i))" "stores_valid c"
  shows "list_all (\<lambda>(k, v). IsValid v) (values_map (injectors (run_call i c w) i))"
proof (cases c)
  case (CallMap val)
  with assms(2) obtain g where "val = Some g" by auto
  with CallMap assms(1) show ?thesis by (simp add: Map_def ValueOf_def store_all_valid)
next
  case (CallMapTo val ifacePtr)
  with assms(2) obtain g where "val = Some g" by auto
  with CallMapTo assms(1) show ?thesis
    by (simp add: MapTo_def ValueOf_def store_all_valid split: option.splits outcome.splits)
next
  case (CallSet k val)
  with assms show ?thesis by (simp add: Set_def store_all_valid)
qed

lemma run_calls_all_valid:
  "list_all (\<lambda>(k, v). IsValid v) (values_map (injectors w i)) \<Longrightarrow> list_all stores_valid cs \<Longrightarrow>
     list_all (\<lambda>(k, v). IsValid v) (values_map (injectors (run_calls i cs w) i))"
  by (induction cs arbitrary: w) (simp_all add: run_call_all_valid)

lemma index_values_mapped_valid:
  assumes "list_all (\<lambda>(k, v). IsValid v) (values_map r)" "t \<in> fst ` set (values_map r)"
  shows "IsValid (index_values r t)"
proof -
  from assms(2) obtain v where v: "map_of (values_map r) t = Some v"
    by (metis domIff dom_map_of_conv_image_fst not_None_eq)
  then have "(t, v) \<in> set (values_map r)" by (rule map_of_SomeD)
  with assms(1) have "IsValid v" by (auto simp: list_all_iff)
  with v show ?thesis by (simp add: index_values_def)
qed

text \<open>
  Claim C3, as the code has it. In every registry state reached from one whose stored Values
  are valid (such as a new registry) by \<^verbatim>\<open>Map\<close>, \<^verbatim>\<open>MapTo\<close> and \<^verbatim>\<open>Set\<close> calls that store
  valid Values, \<^verbatim>\<open>Get\<close> of a mapped type key returns the stored Value, which is valid
  (read-only or not) and so differs from the not-found result, the zero Value; the zero
  value of a Go type, such as the int 0, is stored as a valid Value. And \<^verbatim>\<open>Get\<close> of a type that is not mapped, that
  no key implements and for which there is no parent to ask returns the zero Value.
\<close>

theorem mapped_valid_is_found:
  "(list_all (\<lambda>(k, v). IsValid v) (values_map (injectors w i)) \<and> list_all stores_valid cs \<and>
    T \<in> fst ` set (values_map (injectors (run_calls i cs w) i))
    \<longrightarrow> (\<exists>vt d. (index_values (injectors (run_calls i cs w) i) T = Valid vt d \<or>
                 index_values (injectors (run_calls i cs w) i) T = ReadOnly vt d) \<and>
          Get L i T (run_calls i cs w) =
            Some (Return (index_values (injectors (run_calls i cs w) i) T), run_calls i cs w)))
   \<and> (Some ty \<notin> fst ` set (values_map (injectors (run_calls i cs w) i)) \<and>
      (Kind ty = Interface \<longrightarrow>
         (\<forall>(k, v) \<in> set (values_map (injectors (run_calls i cs w) i)).
            \<exists>kt. k = Some kt \<and> \<not> Implements L kt ty)) \<and>
      parent (injectors (run_calls i cs w) i) = None
    \<longrightarrow> Get L i (Some ty) (run_calls i cs w) = Some (Return Invalid, run_calls i cs w))"
proof (intro conjI impI)
  let ?w = "run_calls i cs w"
  assume a: "list_all (\<lambda>(k, v). IsValid v) (values_map (injectors w i)) \<and> list_all stores_valid cs \<and>
    T \<in> fst ` set (values_map (injectors ?w i))"
  then have "IsValid (index_values (injectors ?w i) T)"
    by (intro index_values_mapped_valid run_calls_all_valid) simp_all
  then show "\<exists>vt d. (index_values (injectors ?w i) T = Valid vt d \<or>
                 index_values (injectors ?w i) T = ReadOnly vt d) \<and>
          Get L i T ?w = Some (Return (index_values (injectors ?w i) T), ?w)"
    by (cases "index_values (injectors ?w i) T") (simp_all add: Get_hit)
next
  let ?w = "run_calls i cs w"
  assume a: "Some ty \<notin> fst ` set (values_map (injectors ?w i)) \<and>
      (Kind ty = Interface \<longrightarrow>
         (\<forall>(k, v) \<in> set (values_map (injectors ?w i)). \<exists>kt. k = Some kt \<and> \<not> Implements L kt ty)) \<and>
      parent (injectors ?w i) = None"
  then have "map_of (values_map (injectors ?w i)) (Some ty) = None"
    by (simp add: map_of_eq_None_iff)
  then have nv: "\<not> IsValid (index_values (injectors ?w i) (Some ty))"
    by (simp add: index_values_def)
  have sc: "(if Kind ty = Interface then scan L ty (values_map (injectors ?w i))
             else Return Invalid) = Return Invalid"
    using a by (simp add: scan_none)
  show "Get L i (Some ty) ?w = Some (Return Invalid, ?w)"
    using a by (simp add: Get_miss[OF nv] sc)
qed

text \<open>
  After \<^verbatim>\<open>Map(0)\<close> on a new registry, \<^verbatim>\<open>Get\<close> of int returns the valid Value of 0 and
  \<^verbatim>\<open>Get\<close> of string the zero Value.
\<close>

theorem mapped_valid_is_found_witness:
  "Get example_lib 0 (Some int_t) (run_calls 0 [CallMap (Some (Scalar ''int'' 0))] empty_world) =
     Some (Return (Valid int_t (Some (Scalar ''int'' 0))),
           run_calls 0 [CallMap (Some (Scalar ''int'' 0))] empty_world)
   \<and> Get example_lib 0 (Some string_t) (run_calls 0 [CallMap (Some (Scalar ''int'' 0))] empty_world) =
     Some (Return Invalid, run_calls 0 [CallMap (Some (Scalar ''int'' 0))] empty_world)"
proof -
  let ?w = "run_calls 0 [CallMap (Some (Scalar ''int'' 0))] empty_world"
  have v: "injectors ?w 0 =
      \<lparr>values_map = [(Some int_t, Valid int_t (Some (Scalar ''int'' 0)))], parent = None\<rparr>"
    by (simp add: empty_world_def New_def Map_def store_def TypeOf_def type_of_simps ValueOf_def int_t_def)
  have 1: "list_all (\<lambda>(k, v). IsValid v) (values_map (injectors empty_world 0)) \<and>
      list_all stores_valid [CallMap (Some (Scalar ''int'' 0))] \<and>
      Some int_t \<in> fst ` set (values_map (injectors ?w 0))"
  proof (intro conjI)
    show "Some int_t \<in> fst ` set (values_map (injectors ?w 0))" by (subst v) simp
  qed (simp_all add: empty_world_def New_def)
  have 2: "Some string_t \<notin> fst ` set (values_map (injectors ?w 0)) \<and>
      (Kind string_t = Interface \<longrightarrow>
         (\<forall>(k, v) \<in> set (values_map (injectors ?w 0)).
            \<exists>kt. k = Some kt \<and> \<not> Implements example_lib kt string_t)) \<and>
      parent (injectors ?w 0) = None"
  proof (intro conjI)
    show "Some string_t \<notin> fst ` set (values_map (injectors ?w 0))"
      by (subst v) (simp add: string_t_def int_t_def)
    show "parent (injectors ?w 0) = None" by (subst v) simp
  qed (simp add: string_t_def)
  from mapped_valid_is_found[where w = empty_world and i = 0
      and cs = "[CallMap (Some (Scalar ''int'' 0))]" and T = "Some int_t" and L = example_lib
      and ty = string_t] 1 2
  have g: "Get example_lib 0 (Some int_t) ?w =
      Some (Return (index_values (injectors ?w 0) (Some int_t)), ?w)"
    and n: "Get example_lib 0 (Some string_t) ?w = Some (Return Invalid, ?w)"
    by blast+
  have "index_values (injectors ?w 0) (Some int_t) = Valid int_t (Some (Scalar ''int'' 0))"
    by (subst v) (simp add: index_values_def)
  with g n show ?thesis by simp
qed

text \<open>
  Claim C3 fails when the stored Value is the zero Value: after
  \<^verbatim>\<open>Set(int, reflect.Value{})\<close> the key int is mapped, and \<^verbatim>\<open>Get\<close> of int returns the
  zero Value, as it does on the new registry where int was never mapped.
\<close>

theorem zero_Value_stored_is_not_found:
  "Some int_t \<in> fst ` set (values_map (injectors (run_calls 0 [CallSet (Some int_t) Invalid] empty_world) 0))
   \<and> Get example_lib 0 (Some int_t) (run_calls 0 [CallSet (Some int_t) Invalid] empty_world) =
       Some (Return Invalid, run_calls 0 [CallSet (Some int_t) Invalid] empty_world)
   \<and> Some int_t \<notin> fst ` set (values_map (injectors empty_world 0))
   \<and> Get example_lib 0 (Some int_t) empty_world = Some (Return Invalid, empty_world)"
proof (intro conjI)
  show "Get example_lib 0 (Some int_t) (run_calls 0 [CallSet (Some int_t) Invalid] empty_world) =
       Some (Return Invalid, run_calls 0 [CallSet (Some int_t) Invalid] empty_world)"
    by (subst Get.simps)
       (simp add: Set_def store_def index_values_def empty_world_def New_def int_t_def)
  show "Get example_lib 0 (Some int_t) empty_world = Some (Return Invalid, empty_world)"
    by (subst Get.simps) (simp add: index_values_def empty_world_def New_def int_t_def)
qed (simp_all add: Set_def store_def empty_world_def New_def)

subsection \<open>Invoke\<close>

lemma resolve_args_stops:
  "list_all2 (resolves L i w) vpre pre \<Longrightarrow>
   Get_visited L v i (Some t) w = Some (Return Invalid, w) \<Longrightarrow>
     resolve_args L (vpre @ v # vpost) i (pre @ t # post) w = Some (Error (ValueNotFound t), w)"
proof (induction rule: list_all2_induct)
  case Nil
  then show ?case by simp
next
  case (Cons v' vpre a pre)
  from Cons(1) obtain x where "Get_visited L v' i (Some a) w = Some (Return x, w)" "IsValid x"
    by (blast dest: resolvesD)
  with Cons show ?case by simp
qed

lemma resolve_args_all:
  "length vs = length ins \<Longrightarrow>
   list_all2 (\<lambda>(v, t) x. Get_visited L v i (Some t) w = Some (Return x, w) \<and> IsValid x)
     (zip vs ins) xs \<Longrightarrow>
     resolve_args L vs i ins w = Some (Return xs, w)"
proof (induction vs ins arbitrary: xs rule: list_induct2)
  case Nil
  then show ?case by simp
next
  case (Cons v vs t ins)
  from Cons.prems obtain x xs' where xs: "xs = x # xs'"
    and g: "Get_visited L v i (Some t) w = Some (Return x, w)" "IsValid x"
    and rest: "list_all2 (\<lambda>(v, t) x. Get_visited L v i (Some t) w = Some (Return x, w) \<and> IsValid x)
      (zip vs ins) xs'"
    by (auto simp: list_all2_Cons1)
  from Cons.IH[OF rest] g xs show ?case by simp
qed

lemma assign_args_all:
  "list_all2 (settable_to L) xs ins \<Longrightarrow> assign_args L (zip xs ins) = Return (map data_of xs)"
proof (induction rule: list_all2_induct)
  case Nil
  then show ?case by simp
next
  case (Cons x xs t ts)
  then show ?case by (cases x) simp_all
qed

lemma settable_to_Valid: "settable_to L x t \<Longrightarrow> IsValid x \<and> \<not> is_read_only x"
  by (cases x) simp_all

text \<open>
  Claim C4, as the code has it. If the parameter \<open>t\<close> does not resolve and every parameter
  before it does, each in the visit of its own call of \<^verbatim>\<open>Get\<close>, \<^verbatim>\<open>Invoke\<close> returns the
  error naming \<open>t\<close> and the world is as it was, whatever the program: no body has run. If
  every parameter resolves, in the visit of its call of \<^verbatim>\<open>Get\<close>, to a Value that is not
  read-only and is assignable to it, and the function is neither nil nor variadic, the result
  of \<^verbatim>\<open>Invoke\<close> is that of one run of the body on the data of the resolved Values, in the
  order of the parameters: its results, typed by the declared result types, or its panic,
  with the world as the body left it.
\<close>

theorem Invoke_error_or_one_call:
  "(type_of g = FuncT (pre @ t # post) outs variadic \<and> list_all2 (resolves L i w) vpre pre \<and>
      Get_visited L v i (Some t) w = Some (Return Invalid, w)
    \<longrightarrow> Invoke L P (vpre @ v # vpost) i (Some g) w = Some (Error (ValueNotFound t), w))
   \<and> (length vs = length ins \<and>
      list_all2 (\<lambda>(v, t) x. Get_visited L v i (Some t) w = Some (Return x, w) \<and> settable_to L x t)
        (zip vs ins) xs
    \<longrightarrow> Invoke L P vs i (Some (FuncV ins outs False (Some c))) w =
          Some (case P c (map data_of xs) w of
                  (Inl p, w') \<Rightarrow> (Panic p, w')
                | (Inr rs, w') \<Rightarrow> (Return (map2 Valid outs rs), w')))"
proof (intro conjI impI)
  assume "type_of g = FuncT (pre @ t # post) outs variadic \<and> list_all2 (resolves L i w) vpre pre \<and>
      Get_visited L v i (Some t) w = Some (Return Invalid, w)"
  then show "Invoke L P (vpre @ v # vpost) i (Some g) w = Some (Error (ValueNotFound t), w)"
    by (simp add: Invoke_def type_of_simps resolve_args_stops)
next
  assume a: "length vs = length ins \<and>
      list_all2 (\<lambda>(v, t) x. Get_visited L v i (Some t) w = Some (Return x, w) \<and> settable_to L x t)
        (zip vs ins) xs"
  then have "list_all2 (\<lambda>(v, t) x. Get_visited L v i (Some t) w = Some (Return x, w) \<and> IsValid x)
      (zip vs ins) xs"
    by (auto elim!: list_all2_mono dest: settable_to_Valid)
  with a have r: "resolve_args L vs i ins w = Some (Return xs, w)" by (simp add: resolve_args_all)
  from a have len: "length xs = length ins" by (auto dest: list_all2_lengthD)
  from a len have st: "list_all2 (settable_to L) xs ins"
    by (auto simp: list_all2_conv_all_nth)
  then have as: "assign_args L (zip xs ins) = Return (map data_of xs)" by (rule assign_args_all)
  from st have "list_all IsValid xs" "\<not> list_ex is_read_only xs"
    by (auto simp: list_all2_conv_all_nth list_all_length list_ex_length dest: settable_to_Valid)
  with len as have "call_args L ins False xs = Return (map data_of xs)"
    by (simp add: call_args_def)
  with r show "Invoke L P vs i (Some (FuncV ins outs False (Some c))) w =
          Some (case P c (map data_of xs) w of
                  (Inl p, w') \<Rightarrow> (Panic p, w')
                | (Inr rs, w') \<Rightarrow> (Return (map2 Valid outs rs), w'))"
    by (simp add: Invoke_def type_of_simps Call_def)
qed

text \<open>
  In \<open>family_world\<close>, whose child holds an int and a duck: with a float64 parameter
  \<^verbatim>\<open>Invoke\<close> returns the error and the global \<^verbatim>\<open>ran\<close> is not set; with two parameters of
  type \<^verbatim>\<open>interface{}\<close>, the first resolved in a visit that meets the int first and the
  second in one that meets the duck first, the body 2 runs on the int and the duck.
\<close>

theorem Invoke_error_or_one_call_witness:
  "Invoke example_lib example_prog [reversed, in_order, reversed] 0
      (Some (FuncV [int_t, float_t, string_t] [int_t] False (Some 0))) family_world =
     Some (Error (ValueNotFound float_t), family_world)
   \<and> Invoke example_lib example_prog [in_order, reversed] 0
      (Some (FuncV [IfaceT [], IfaceT []] [IfaceT [], IfaceT []] False (Some 2))) family_world =
     Some (Return [Valid (IfaceT []) (Some (Scalar ''int'' 7)), Valid (IfaceT []) (Some duck)],
           family_world)"
proof -
  have 1: "type_of (FuncV [int_t, float_t, string_t] [int_t] False (Some 0)) =
      FuncT ([int_t] @ float_t # [string_t]) [int_t] False \<and>
      list_all2 (resolves example_lib 0 family_world) [reversed] [int_t] \<and>
      Get_visited example_lib in_order 0 (Some float_t) family_world =
        Some (Return Invalid, family_world)"
    by (simp add: type_of_simps resolves_def family_child_int_rev Get_visited_id family_child_float)
  have as: "AssignableTo example_lib int_t (IfaceT [])" "AssignableTo example_lib duck_t (IfaceT [])"
    by (simp_all add: example_lib_def)
  have 2: "length [in_order, reversed] = length [IfaceT [], IfaceT []] \<and>
      list_all2 (\<lambda>(v, t) x. Get_visited example_lib v 0 (Some t) family_world =
                      Some (Return x, family_world) \<and> settable_to example_lib x t)
        (zip [in_order, reversed] [IfaceT [], IfaceT []])
        [Valid int_t (Some (Scalar ''int'' 7)), Valid duck_t (Some duck)]"
    by (simp add: Get_visited_id family_child_any family_child_any_rev as)
  from Invoke_error_or_one_call[where g = "FuncV [int_t, float_t, string_t] [int_t] False (Some 0)"
      and pre = "[int_t]" and t = float_t and post = "[string_t]" and outs = "[int_t]"
      and variadic = False and L = example_lib and i = 0 and w = family_world
      and vpre = "[reversed]" and v = "in_order" and vpost = "[reversed]"
      and P = example_prog] 1
  have a: "Invoke example_lib example_prog ([reversed] @ in_order # [reversed]) 0
      (Some (FuncV [int_t, float_t, string_t] [int_t] False (Some 0))) family_world =
     Some (Error (ValueNotFound float_t), family_world)" by blast
  from Invoke_error_or_one_call[where L = example_lib and i = 0 and w = family_world
      and vs = "[in_order, reversed]" and ins = "[IfaceT [], IfaceT []]"
      and xs = "[Valid int_t (Some (Scalar ''int'' 7)), Valid duck_t (Some duck)]"
      and P = example_prog and outs = "[IfaceT [], IfaceT []]" and c = 2] 2
  have "Invoke example_lib example_prog [in_order, reversed] 0
      (Some (FuncV [IfaceT [], IfaceT []] [IfaceT [], IfaceT []] False (Some 2))) family_world =
     Some (case example_prog 2 (map data_of
              [Valid int_t (Some (Scalar ''int'' 7)), Valid duck_t (Some duck)])
              family_world of
                  (Inl p, w') \<Rightarrow> (Panic p, w')
                | (Inr rs, w') \<Rightarrow> (Return (map2 Valid [IfaceT [], IfaceT []] rs), w'))" by blast
  then have b: "Invoke example_lib example_prog [in_order, reversed] 0
      (Some (FuncV [IfaceT [], IfaceT []] [IfaceT [], IfaceT []] False (Some 2))) family_world =
     Some (Return [Valid (IfaceT []) (Some (Scalar ''int'' 7)), Valid (IfaceT []) (Some duck)],
           family_world)"
    by (simp add: example_prog_def)
  from a b show ?thesis by simp
qed

text \<open>
  Claim C4 fails when \<^verbatim>\<open>Call\<close> refuses the resolved Values. After \<^verbatim>\<open>Set\<close> of the Value
  of a string under the type int, the int parameter of \<^verbatim>\<open>func(int)\<close> resolves and
  \<^verbatim>\<open>Invoke\<close> panics in \<^verbatim>\<open>Call\<close>, a string not being assignable to an int. After
  \<^verbatim>\<open>Map([]int{1})\<close> the one parameter of the variadic \<^verbatim>\<open>func(xs ...int)\<close>, of type
  \<^verbatim>\<open>[]int\<close>, resolves and \<^verbatim>\<open>Invoke\<close> panics in \<^verbatim>\<open>Call\<close>, which takes the resolved
  slice for one element of the variadic parameter. After \<^verbatim>\<open>Set\<close> of a read-only Value of
  an int under the type int, the int parameter resolves and \<^verbatim>\<open>Invoke\<close> panics in
  \<^verbatim>\<open>Call\<close>, which passes no read-only Value. In all three the body does not run.
\<close>

theorem Invoke_panics_in_Call:
  "(Get example_lib 0 (Some int_t) mismatch_world =
      Some (Return (Valid string_t (Some (Scalar ''string'' 0))), mismatch_world)
    \<and> Invoke example_lib example_prog [] 0 (Some (FuncV [int_t] [] False (Some 0))) mismatch_world =
       Some (Panic (NotAssignable string_t int_t), mismatch_world))
   \<and> (Get example_lib 0 (Some (SliceOf int_t)) slice_world =
      Some (Return (Valid (SliceOf int_t) (Some (SliceV int_t [Some (Scalar ''int'' 1)]))), slice_world)
    \<and> Invoke example_lib example_prog [] 0 (Some (FuncV [SliceOf int_t] [] True (Some 0))) slice_world =
       Some (Panic (NotAssignable (SliceOf int_t) int_t), slice_world))
   \<and> (Get example_lib 0 (Some int_t) readonly_world =
      Some (Return (ReadOnly int_t (Some (Scalar ''int'' 5))), readonly_world)
    \<and> Invoke example_lib example_prog [] 0 (Some (FuncV [int_t] [] False (Some 0))) readonly_world =
       Some (Panic ReadOnlyValue, readonly_world))"
proof (intro conjI)
  have "\<not> AssignableTo example_lib string_t int_t"
    by (simp add: example_lib_def int_t_def string_t_def quacker_t_def)
  then show "Invoke example_lib example_prog [] 0 (Some (FuncV [int_t] [] False (Some 0))) mismatch_world =
       Some (Panic (NotAssignable string_t int_t), mismatch_world)"
    by (simp add: Invoke_def type_of_simps Call_def call_args_def Get_visited_id mismatch_world_int)
  have "\<not> AssignableTo example_lib (SliceOf int_t) int_t"
    by (simp add: example_lib_def int_t_def quacker_t_def)
  then show "Invoke example_lib example_prog [] 0 (Some (FuncV [SliceOf int_t] [] True (Some 0))) slice_world =
       Some (Panic (NotAssignable (SliceOf int_t) int_t), slice_world)"
    by (simp add: Invoke_def type_of_simps Call_def call_args_def Get_visited_id slice_world_slice)
  have "AssignableTo example_lib int_t int_t" by (simp add: example_lib_def)
  then show "Invoke example_lib example_prog [] 0 (Some (FuncV [int_t] [] False (Some 0))) readonly_world =
       Some (Panic ReadOnlyValue, readonly_world)"
    by (simp add: Invoke_def type_of_simps Call_def call_args_def Get_visited_id readonly_world_int)
qed (rule mismatch_world_int slice_world_slice readonly_world_int)+

subsection \<open>Apply on a struct with a field that does not resolve\<close>

lemma inject_fields_injectable:
  "injectable L d \<Longrightarrow>
   Get_visited L v i (Some (ftype d)) w = Some (Return (Valid vt vd), w) \<Longrightarrow>
   AssignableTo L vt (ftype d) \<Longrightarrow>
     inject_fields L (v # vs) i True ((d, c) # fs) w =
       (case inject_fields L vs i True fs w of
          None \<Rightarrow> None
        | Some (r, fs', w'') \<Rightarrow> Some (r, (d, vd) # fs', w''))"
  by (simp add: injectable_def)

lemma inject_fields_skip:
  "\<not> injectable L d \<Longrightarrow>
     inject_fields L vs i True ((d, c) # fs) w =
       (case inject_fields L (tl vs) i True fs w of
          None \<Rightarrow> None
        | Some (r, fs', w') \<Rightarrow> Some (r, (d, c) # fs', w'))"
  by (cases "exported d") (simp_all add: injectable_def)

lemma inject_fields_stops:
  assumes "injectable L d" "Get_visited L v i (Some (ftype d)) w = Some (Return Invalid, w)"
  shows "list_all2 (\<lambda>v' e. injectable L (fst e) \<longrightarrow> resolves_assignable L i w v' (ftype (fst e)))
       vpre pre \<Longrightarrow>
     inject_fields L (vpre @ v # vpost) i True (pre @ (d, c) # post) w =
       Some (Error (ValueNotFound (ftype d)), map2 (filled L i w) vpre pre @ (d, c) # post, w)"
proof (induction rule: list_all2_induct)
  case Nil
  with assms show ?case by (simp add: injectable_def)
next
  case (Cons v' vpre e pre)
  obtain d' c' where e: "e = (d', c')" by (cases e)
  note IH = Cons.IH
  show ?case
  proof (cases "injectable L d'")
    case True
    with Cons(1) e have ra: "resolves_assignable L i w v' (ftype d')" by simp
    then obtain vt vd where g: "Get_visited L v' i (Some (ftype d')) w = Some (Return (Valid vt vd), w)"
      and as: "AssignableTo L vt (ftype d')"
      by (blast dest: resolves_assignableD)
    from True e g have f: "filled L i w v' e = (d', vd)" by (simp add: filled_def)
    show ?thesis using e IH f
      by (simp add: inject_fields_injectable[OF True g as] del: inject_fields.simps)
  next
    case False
    with e have f: "filled L i w v' e = e" by (simp add: filled_def)
    show ?thesis using e IH f
      by (simp add: inject_fields_skip[OF False] del: inject_fields.simps)
  qed
qed

text \<open>
  Claim C5, as the code has it. The target is a struct behind one or more pointers, with
  fields \<open>pre\<close>, then the field \<open>d\<close>, then \<open>post\<close>. If \<open>d\<close> is injectable and \<^verbatim>\<open>Get\<close> does not
  resolve its type, and every injectable field of \<open>pre\<close> resolves to a Value that is not
  read-only and is assignable to it, each in the visit of its own call of \<^verbatim>\<open>Get\<close>, then
  \<^verbatim>\<open>Apply\<close> returns the error naming the type of \<open>d\<close>, every injectable field of \<open>pre\<close>
  holds its resolved value, and \<open>d\<close> and \<open>post\<close> are as they were.
\<close>

theorem Apply_error_keeps_earlier_fields:
  assumes "injectable L d"
    and "Get_visited L v i (Some (ftype d)) w = Some (Return Invalid, w)"
    and "list_all2 (\<lambda>v' e. injectable L (fst e) \<longrightarrow> resolves_assignable L i w v' (ftype (fst e)))
           vpre pre"
  shows "Apply L (vpre @ v # vpost) i
           (Some (pointer_to (p # ps) (StructV name (pre @ (d, c) # post)))) w =
     Some (Error (ValueNotFound (ftype d)),
           Some (pointer_to (p # ps)
                   (StructV name (map2 (filled L i w) vpre pre @ (d, c) # post))), w)"
proof -
  have "apply_value L (vpre @ v # vpost) i True (StructV name (pre @ (d, c) # post)) w =
      Some (Error (ValueNotFound (ftype d)),
            StructV name (map2 (filled L i w) vpre pre @ (d, c) # post), w)"
    using inject_fields_stops[OF assms(1,2,3)] by (simp add: apply_value_StructV)
  then have "apply_value L (vpre @ v # vpost) i False
               (pointer_to (p # ps) (StructV name (pre @ (d, c) # post))) w =
      Some (Error (ValueNotFound (ftype d)),
            pointer_to (p # ps) (StructV name (map2 (filled L i w) vpre pre @ (d, c) # post)), w)"
    by (rule apply_value_through_pointers) simp
  then show ?thesis by (simp add: Apply_def)
qed

text \<open>
  In \<open>family_world\<close> the pond gets its int, keeps its unexported name, and \<^verbatim>\<open>Apply\<close>
  stops with the error at the float64.
\<close>

theorem Apply_error_keeps_earlier_fields_witness:
  "Apply example_lib [reversed, reversed, in_order] 0 pond_ptr family_world =
     Some (Error (ValueNotFound float_t),
           Some (Ref (StructV ''Pond''
             [(FieldDecl ''Count'' True ''inject'' int_t, Some (Scalar ''int'' 7)),
              (FieldDecl ''name'' False ''inject'' string_t, Some (Scalar ''string'' 0)),
              (FieldDecl ''Depth'' True ''inject'' float_t, Some (Scalar ''float64'' 0)),
              (FieldDecl ''Bird'' True ''inject'' quacker_t, None)])),
           family_world)"
proof -
  let ?count = "FieldDecl ''Count'' True ''inject'' int_t"
  let ?name = "FieldDecl ''name'' False ''inject'' string_t"
  let ?depth = "FieldDecl ''Depth'' True ''inject'' float_t"
  let ?pre = "[(?count, Some (Scalar ''int'' 0)), (?name, Some (Scalar ''string'' 0))]"
  have 1: "injectable example_lib ?depth" by (simp add: injectable_def)
  have 2: "Get_visited example_lib in_order 0 (Some (ftype ?depth)) family_world =
      Some (Return Invalid, family_world)"
    by (simp add: Get_visited_id family_child_float)
  have 3: "list_all2 (\<lambda>v' e. injectable example_lib (fst e) \<longrightarrow>
      resolves_assignable example_lib 0 family_world v' (ftype (fst e))) [reversed, reversed] ?pre"
  proof -
    have "AssignableTo example_lib int_t int_t" by (simp add: example_lib_def)
    then show ?thesis
      by (simp add: injectable_def resolves_assignable_def family_child_int_rev)
  qed
  have 4: "map2 (filled example_lib 0 family_world) [reversed, reversed] ?pre =
      [(?count, Some (Scalar ''int'' 7)), (?name, Some (Scalar ''string'' 0))]"
    by (simp add: filled_def injectable_def family_child_int_rev)
  from Apply_error_keeps_earlier_fields[OF 1 2 3, of "[]" None "[]" "''Pond''"
      "Some (Scalar ''float64'' 0)" "[(FieldDecl ''Bird'' True ''inject'' quacker_t, None)]"]
  have "Apply example_lib ([reversed, reversed] @ in_order # []) 0
      (Some (pointer_to [None] (StructV ''Pond''
         (?pre @ (?depth, Some (Scalar ''float64'' 0)) #
            [(FieldDecl ''Bird'' True ''inject'' quacker_t, None)])))) family_world =
     Some (Error (ValueNotFound (ftype ?depth)),
           Some (pointer_to [None] (StructV ''Pond''
             ([(?count, Some (Scalar ''int'' 7)), (?name, Some (Scalar ''string'' 0))] @
              (?depth, Some (Scalar ''float64'' 0)) #
                [(FieldDecl ''Bird'' True ''inject'' quacker_t, None)]))), family_world)"
    unfolding 4 .
  then show ?thesis by (simp add: pond_ptr_def pond_fields_def)
qed

text \<open>
  Claim C5 fails when an earlier field cannot be set: after \<^verbatim>\<open>MapTo(3, (*Quacker)(nil))\<close>
  the string field of the nest does not resolve, and \<^verbatim>\<open>Apply\<close> panics in \<^verbatim>\<open>f.Set(v)\<close> at
  the \<^verbatim>\<open>Quacker\<close> field before it, since an int is not assignable to \<^verbatim>\<open>Quacker\<close>; no error
  is returned.
\<close>

theorem Apply_panics_before_unresolved_field:
  "Get example_lib 0 (Some string_t) quack_int_world = Some (Return Invalid, quack_int_world)
   \<and> Apply example_lib [] 0 nest_ptr quack_int_world =
       Some (Panic (NotAssignable int_t quacker_t), nest_ptr, quack_int_world)"
proof (intro conjI)
  show "Get example_lib 0 (Some string_t) quack_int_world = Some (Return Invalid, quack_int_world)"
    by (subst Get.simps)
       (simp add: quack_int_world_values index_values_def string_t_def quacker_t_def)
  have "\<not> AssignableTo example_lib int_t quacker_t"
    by (simp add: example_lib_def int_t_def quacker_t_def duck_t_def)
  then show "Apply example_lib [] 0 nest_ptr quack_int_world =
       Some (Panic (NotAssignable int_t quacker_t), nest_ptr, quack_int_world)"
    by (simp add: Apply_def nest_ptr_def apply_value_Ref apply_value_StructV Get_visited_id
        quack_int_quacker)
qed

subsection \<open>Map and Get\<close>

text \<open>
  Claim C6, as the code has it: for every value \<open>v\<close> other than the nil interface, after
  \<^verbatim>\<open>Map(v)\<close> on a registry, \<^verbatim>\<open>Get\<close> of the runtime type of \<open>v\<close> on that registry
  returns \<open>v\<close>, as a valid Value (found), whatever the registry held before.
\<close>

theorem Get_after_Map:
  "Get L i (TypeOf (Some g)) (snd (Map i (Some g) w)) =
     Some (Return (Valid (type_of g) (Some g)), snd (Map i (Some g) w))"
  by (subst Get.simps) (simp add: Map_def index_values_store_same ValueOf_def)

text \<open>
  Claim C6 fails at the nil interface: \<^verbatim>\<open>Map(nil)\<close> stores the zero Value under the nil
  type, and \<^verbatim>\<open>Get\<close> of the nil type then panics at \<^verbatim>\<open>t.Kind()\<close> instead of returning
  a found value.
\<close>

theorem Get_after_Map_nil_panics:
  "Get example_lib 0 (TypeOf None) (snd (Map 0 None empty_world)) =
     Some (Panic NilDereference, snd (Map 0 None empty_world))"
  by (subst Get.simps) (simp add: Map_def index_values_store_same ValueOf_def TypeOf_def type_of_simps)

subsection \<open>Parent and child\<close>




subsection \<open>MapTo and its witness argument\<close>

lemma deref_type_pointers:
  "Kind t \<noteq> Ptr \<Longrightarrow> deref_type ((PtrTo ^^ n) t) = Some t"
  by (induction n) (simp_all add: deref_type_PtrTo deref_type_other)

lemma MapTo_interface_pointer:
  "TypeOf wit = Some ((PtrTo ^^ n) (IfaceT name)) \<Longrightarrow>
     MapTo i val wit w = Some (Return i, store i (Some (IfaceT name)) (ValueOf val) w)"
  by (simp add: MapTo_def InterfaceOf_def deref_type_pointers)

lemma MapTo_other_pointer:
  "TypeOf wit = Some ((PtrTo ^^ n) t) \<Longrightarrow> Kind t \<noteq> Ptr \<Longrightarrow> Kind t \<noteq> Interface \<Longrightarrow>
     MapTo i val wit w = Some (Panic NotAnInterfacePointer, w)"
  by (simp add: MapTo_def InterfaceOf_def deref_type_pointers)

lemma deref_type_not_self_type:
  assumes "deref_type t = Some y"
  shows "t \<noteq> self_type n"
proof (rule deref_type.raw_induct[where P = "\<lambda>t y. t \<noteq> self_type n", OF _ assms])
  fix D :: "rtype \<Rightarrow> rtype option"
  fix t y
  assume IH: "\<And>x y. D x = Some y \<Longrightarrow> x \<noteq> self_type n"
    and eq: "(case t of PtrTo t' \<Rightarrow> D t' | DefPtr n t' \<Rightarrow> D t' | _ \<Rightarrow> Some t) = Some y"
  have s: "self_type n = DefPtr n (self_type n)" by (rule self_type.code)
  show "t \<noteq> self_type n"
  proof (cases t)
    case (DefPtr m t')
    with eq have "D t' = Some y" by simp
    then have "t' \<noteq> self_type n" by (rule IH)
    with DefPtr s show ?thesis by (metis rtype.inject(3))
  qed (use s in \<open>metis rtype.distinct\<close>)+
qed

lemma deref_type_self_type: "deref_type (self_type n) = None"
proof (cases "deref_type (self_type n)")
  case (Some y)
  then have "self_type n \<noteq> self_type n" by (rule deref_type_not_self_type)
  then show ?thesis by simp
qed simp

text \<open>
  Claim C8 at the witness \<^verbatim>\<open>P(nil)\<close> with \<^verbatim>\<open>type P *P\<close>. The type of the witness is
  \<open>P\<close>, a pointer type whose element type is \<open>P\<close> again, so no number of dereferences ends
  at an interface type and the claim has \<^verbatim>\<open>MapTo\<close> panic. The loop of \<^verbatim>\<open>InterfaceOf\<close>
  does not end: \<^verbatim>\<open>MapTo\<close> does not return, so it neither panics nor stores the value.
\<close>

theorem MapTo_self_pointer_type_does_not_return:
  "TypeOf (Some (DefNil ''P'' (self_type ''P''))) = Some (self_type ''P'')
   \<and> Kind (self_type ''P'') = Ptr
   \<and> deref_type (self_type ''P'') = None
   \<and> MapTo i val (Some (DefNil ''P'' (self_type ''P''))) w = None"
proof (intro conjI)
  have s: "self_type ''P'' = DefPtr ''P'' (self_type ''P'')" by (rule self_type.code)
  from s show t: "TypeOf (Some (DefNil ''P'' (self_type ''P''))) = Some (self_type ''P'')"
    by (simp add: TypeOf_def type_of_simps)
  show "Kind (self_type ''P'') = Ptr" by (subst s) simp
  show "deref_type (self_type ''P'') = None" by (rule deref_type_self_type)
  then show "MapTo i val (Some (DefNil ''P'' (self_type ''P''))) w = None"
    by (simp add: MapTo_def InterfaceOf_def t)
qed

subsection \<open>Apply on a value that is not a struct\<close>

lemma apply_value_not_pointer_not_struct:
  "\<forall>g'. g \<noteq> Ref g' \<Longrightarrow> \<forall>n g'. g \<noteq> DefRef n g' \<Longrightarrow> \<forall>n fs. g \<noteq> StructV n fs \<Longrightarrow>
     apply_value L vs i a g w = Some (Return (), g, w)"
  by (subst apply_value.simps) (cases g; simp)

lemma Apply_not_struct_returns:
  assumes "\<forall>g'. g \<noteq> Ref g'" "\<forall>n g'. g \<noteq> DefRef n g'" "\<forall>n fs. g \<noteq> StructV n fs"
  shows "Apply L vs i (Some (pointer_to ps g)) w = Some (Return (), Some (pointer_to ps g), w)"
proof (cases "ps = []")
  case True
  with assms show ?thesis by (simp add: Apply_def apply_value_not_pointer_not_struct)
next
  case False
  have "apply_value L vs i True g w = Some (Return (), g, w)"
    using assms by (rule apply_value_not_pointer_not_struct)
  from apply_value_through_pointers[OF this False] show ?thesis by (simp add: Apply_def)
qed

lemma apply_value_not_self_ptr:
  assumes "apply_value L vs i a g w = Some y"
  shows "g \<noteq> self_ptr n"
proof (rule apply_value.raw_induct[where P = "\<lambda>L vs i a g w y. g \<noteq> self_ptr n", OF _ assms])
  fix A :: "reflect_lib \<Rightarrow> visit list \<Rightarrow> addr \<Rightarrow> bool \<Rightarrow> gval \<Rightarrow> world \<Rightarrow>
     (unit outcome \<times> gval \<times> world) option"
  fix L vs i a g w y
  assume IH: "\<And>L vs i a g w y. A L vs i a g w = Some y \<Longrightarrow> g \<noteq> self_ptr n"
    and eq: "(case g of
        Ref g' \<Rightarrow>
          Option.bind (A L vs i True g' w) (\<lambda>(r, g'', w'). Some (r, Ref g'', w'))
      | DefRef n g' \<Rightarrow>
          Option.bind (A L vs i True g' w) (\<lambda>(r, g'', w'). Some (r, DefRef n g'', w'))
      | StructV n fs \<Rightarrow>
          (case inject_fields L vs i a fs w of
             None \<Rightarrow> None
           | Some (r, fs', w') \<Rightarrow> Some (r, StructV n fs', w'))
      | _ \<Rightarrow> Some (Return (), g, w)) = Some y"
  have s: "self_ptr n = DefRef n (self_ptr n)" by (rule self_ptr.code)
  show "g \<noteq> self_ptr n"
  proof (cases g)
    case (DefRef m g')
    with eq obtain y' where "A L vs i True g' w = Some y'"
      by (auto simp: bind_eq_Some_conv)
    then have "g' \<noteq> self_ptr n" by (rule IH)
    with DefRef s show ?thesis by (metis gval.inject(5))
  qed (use s in \<open>metis gval.distinct\<close>)+
qed

lemma apply_value_self_ptr: "apply_value L vs i a (self_ptr n) w = None"
proof (cases "apply_value L vs i a (self_ptr n) w")
  case (Some y)
  then have "self_ptr n \<noteq> self_ptr n" by (rule apply_value_not_self_ptr)
  then show ?thesis by simp
qed simp

text \<open>
  Claim C9 at the pointer \<^verbatim>\<open>p\<close> with \<^verbatim>\<open>type P *P; var p P; p = &p\<close>. Every dereference
  of \<open>p\<close> gives \<open>p\<close>, a pointer and no struct, so the claim has \<^verbatim>\<open>Apply\<close> return nil. The
  loop of \<^verbatim>\<open>Apply\<close> does not end: \<^verbatim>\<open>Apply\<close> does not return.
\<close>

theorem Apply_self_pointer_does_not_return:
  "self_ptr ''P'' = DefRef ''P'' (self_ptr ''P'')
   \<and> Apply L vs i (Some (self_ptr ''P'')) w = None"
proof (intro conjI)
  show "self_ptr ''P'' = DefRef ''P'' (self_ptr ''P'')" by (rule self_ptr.code)
  show "Apply L vs i (Some (self_ptr ''P'')) w = None"
    by (simp add: Apply_def apply_value_self_ptr)
qed

subsection \<open>What the calls leave of the world\<close>













end
